theory Spec2Isabelle
  imports Main "HOL-Library.Word" "HOL-Library.Multiset" "HOL-Library.AList"
begin

section \<open>Common types\<close>

text \<open>
  Go's \<open>int64\<close> and \<open>uint64\<close> are 64-bit words: \<open>+\<close> wraps, \<open>sint\<close> reads an
  \<open>int64\<close>, \<open>unat\<close> a \<open>uint64\<close>. Go's \<open>int\<close> is taken at its 64-bit width.
  A Go pointer \<open>*T\<close> that the code may find nil is a \<open>T option\<close>; where the code compares
  pointers (\<open>a.toForget == h\<close>) the pointer is an address paired with the value it points to.
\<close>

type_synonym int64 = "64 word"
type_synonym uint64 = "64 word"
type_synonym goint = "64 word"

text \<open>
  Everything that ends a Go call other than a normal return: a run-time panic (nil pointer
  dereference, assignment to an entry of a nil map), a panic raised by a decider, and the
  \<open>error\<close> values the FSM returns. A decider may panic with an \<open>error\<close> value or with
  any other value; of a value that is not an \<open>error\<close> the code reads only what \<open>%#v\<close>
  prints for it (\<open>panicSafeDecide\<close>), and \<open>DeciderPanic\<close> carries that text: for
  \<open>panic("boom")\<close> the four letters between double quotes.
\<close>

datatype error =
    NilPointerDereference
  | NilMapAssignment
  | DeciderPanic string
  | ErrorValue string

type_synonym 'a result = "error + 'a"

definition bindR :: "'a result \<Rightarrow> ('a \<Rightarrow> 'b result) \<Rightarrow> 'b result" where
  "bindR r k = (case r of Inl e \<Rightarrow> Inl e | Inr v \<Rightarrow> k v)"

definition deref :: "'a option \<Rightarrow> 'a result" where
  "deref p = (case p of None \<Rightarrow> Inl NilPointerDereference | Some v \<Rightarrow> Inr v)"

text \<open>
  A procedure that mutates its receiver in place leaves the receiver as it was when a panic
  unwound it: the model returns the panic (if any) together with the receiver at that point.
\<close>

type_synonym 's mutated = "error option \<times> 's"

definition attempt :: "'s \<Rightarrow> 'v result \<Rightarrow> ('v \<Rightarrow> 's) \<Rightarrow> 's mutated" where
  "attempt s r upd = (case r of Inl e \<Rightarrow> (Some e, s) | Inr v \<Rightarrow> (None, upd v))"

definition andThen :: "'s mutated \<Rightarrow> ('s \<Rightarrow> 's mutated) \<Rightarrow> 's mutated" where
  "andThen r k = (case r of (Some e, s) \<Rightarrow> (Some e, s) | (None, s) \<Rightarrow> k s)"

type_synonym 'a ptr = "nat \<times> 'a"

definition addr :: "'a ptr \<Rightarrow> nat" where
  "addr p = fst p"

definition val :: "'a ptr \<Rightarrow> 'a" where
  "val p = snd p"

subsection \<open>Go maps\<close>

text \<open>
  A Go map variable is nil or a map. Reading a nil map or a missing key gives the zero
  value, \<open>delete\<close> on a nil map does nothing, storing into a nil map panics.
\<close>

type_synonym ('k, 'v) gomap = "('k \<rightharpoonup> 'v) option"

definition mapInit :: "('k, 'v) gomap \<Rightarrow> ('k, 'v) gomap" where
  "mapInit m = (case m of None \<Rightarrow> Some Map.empty | Some t \<Rightarrow> Some t)"

definition mapEntry :: "('k, 'v) gomap \<Rightarrow> 'k \<Rightarrow> 'v option" where
  "mapEntry m k = (case m of None \<Rightarrow> None | Some t \<Rightarrow> t k)"

definition mapPtr :: "('k, 'v option) gomap \<Rightarrow> 'k \<Rightarrow> 'v option" where
  "mapPtr m k = (case mapEntry m k of None \<Rightarrow> None | Some p \<Rightarrow> p)"

definition mapInt :: "('k, goint) gomap \<Rightarrow> 'k \<Rightarrow> goint" where
  "mapInt m k = (case mapEntry m k of None \<Rightarrow> 0 | Some n \<Rightarrow> n)"

definition mapDelete :: "('k, 'v) gomap \<Rightarrow> 'k \<Rightarrow> ('k, 'v) gomap" where
  "mapDelete m k = (case m of None \<Rightarrow> None | Some t \<Rightarrow> Some (t(k := None)))"

definition mapStore :: "('k, 'v) gomap \<Rightarrow> 'k \<Rightarrow> 'v \<Rightarrow> ('k, 'v) gomap result" where
  "mapStore m k v = (case m of None \<Rightarrow> Inl NilMapAssignment | Some t \<Rightarrow> Inr (Some (t(k \<mapsto> v))))"

subsection \<open>strconv.FormatInt in base 10\<close>

definition digit :: "nat \<Rightarrow> char" where
  "digit n = char_of (48 + n)"

function decimal :: "nat \<Rightarrow> string" where
  "decimal n = (if n < 10 then [digit n] else decimal (n div 10) @ [digit (n mod 10)])"
  by pat_completeness auto
termination
  by (relation "measure (\<lambda>n. n)") auto

declare decimal.simps [simp del]

definition FormatInt :: "int64 \<Rightarrow> string" where
  "FormatInt i = (if sint i < 0 then CHR ''-'' # decimal (nat (- sint i)) else decimal (nat (sint i)))"

section \<open>History events\<close>

text \<open>
  \<open>swf.HistoryEvent\<close> of the AWS SDK: every field is a pointer. The attribute structs keep
  the fields this code reads. The five activity-task attribute structs read here only
  \<open>ScheduledEventId\<close>, the external-workflow ones only \<open>InitiatedEventId\<close>, the timer ones
  only \<open>StartedEventId\<close>; each group shares one record.
\<close>

record ActivityType =
  at_Name :: "string option"
  at_Version :: "string option"

record WorkflowType =
  wt_Name :: "string option"
  wt_Version :: "string option"

record WorkflowExecution =
  WorkflowId :: "string option"
  RunId :: "string option"

record ActivityTaskScheduledEventAttributes =
  sch_ActivityId :: "string option"
  sch_ActivityType :: "ActivityType option"

record ScheduledEventRef =
  ScheduledEventId :: "int64 option"

record InitiatedEventRef =
  InitiatedEventId :: "int64 option"

record StartedEventRef =
  StartedEventId :: "int64 option"

record SignalExternalWorkflowExecutionInitiatedEventAttributes =
  sig_SignalName :: "string option"
  sig_WorkflowId :: "string option"

record RequestCancelExternalWorkflowExecutionInitiatedEventAttributes =
  rc_WorkflowId :: "string option"

record TimerStartedEventAttributes =
  ts_Control :: "string option"
  ts_TimerId :: "string option"

record StartChildWorkflowExecutionInitiatedEventAttributes =
  sc_WorkflowId :: "string option"
  sc_WorkflowType :: "WorkflowType option"

record WorkflowExecutionSignaledEventAttributes =
  wes_SignalName :: "string option"
  wes_Input :: "string option"
  wes_ExternalInitiatedEventId :: "int64 option"

record MarkerRecordedEventAttributes =
  MarkerName :: "string option"
  Details :: "string option"

record WorkflowExecutionStartedEventAttributes =
  Input :: "string option"

record HistoryEvent =
  EventId :: "int64 option"
  EventType :: "string option"
  ActivityTaskScheduledEventAttributes :: "ActivityTaskScheduledEventAttributes option"
  ActivityTaskStartedEventAttributes :: "ScheduledEventRef option"
  ActivityTaskCompletedEventAttributes :: "ScheduledEventRef option"
  ActivityTaskFailedEventAttributes :: "ScheduledEventRef option"
  ActivityTaskTimedOutEventAttributes :: "ScheduledEventRef option"
  ActivityTaskCanceledEventAttributes :: "ScheduledEventRef option"
  SignalExternalWorkflowExecutionInitiatedEventAttributes ::
    "SignalExternalWorkflowExecutionInitiatedEventAttributes option"
  ExternalWorkflowExecutionSignaledEventAttributes :: "InitiatedEventRef option"
  SignalExternalWorkflowExecutionFailedEventAttributes :: "InitiatedEventRef option"
  RequestCancelExternalWorkflowExecutionInitiatedEventAttributes ::
    "RequestCancelExternalWorkflowExecutionInitiatedEventAttributes option"
  RequestCancelExternalWorkflowExecutionFailedEventAttributes :: "InitiatedEventRef option"
  ExternalWorkflowExecutionCancelRequestedEventAttributes :: "InitiatedEventRef option"
  TimerStartedEventAttributes :: "TimerStartedEventAttributes option"
  TimerFiredEventAttributes :: "StartedEventRef option"
  TimerCanceledEventAttributes :: "StartedEventRef option"
  StartChildWorkflowExecutionInitiatedEventAttributes ::
    "StartChildWorkflowExecutionInitiatedEventAttributes option"
  StartChildWorkflowExecutionFailedEventAttributes :: "InitiatedEventRef option"
  ChildWorkflowExecutionStartedEventAttributes :: "InitiatedEventRef option"
  WorkflowExecutionSignaledEventAttributes :: "WorkflowExecutionSignaledEventAttributes option"
  MarkerRecordedEventAttributes :: "MarkerRecordedEventAttributes option"
  WorkflowExecutionStartedEventAttributes :: "WorkflowExecutionStartedEventAttributes option"

text \<open>The event-type names of the service, as the SDK's constants spell them.\<close>

definition EventTypeActivityTaskScheduled :: string where
  "EventTypeActivityTaskScheduled = ''ActivityTaskScheduled''"
definition EventTypeActivityTaskStarted :: string where
  "EventTypeActivityTaskStarted = ''ActivityTaskStarted''"
definition EventTypeActivityTaskCompleted :: string where
  "EventTypeActivityTaskCompleted = ''ActivityTaskCompleted''"
definition EventTypeActivityTaskFailed :: string where
  "EventTypeActivityTaskFailed = ''ActivityTaskFailed''"
definition EventTypeActivityTaskTimedOut :: string where
  "EventTypeActivityTaskTimedOut = ''ActivityTaskTimedOut''"
definition EventTypeActivityTaskCanceled :: string where
  "EventTypeActivityTaskCanceled = ''ActivityTaskCanceled''"
definition EventTypeSignalExternalWorkflowExecutionInitiated :: string where
  "EventTypeSignalExternalWorkflowExecutionInitiated = ''SignalExternalWorkflowExecutionInitiated''"
definition EventTypeExternalWorkflowExecutionSignaled :: string where
  "EventTypeExternalWorkflowExecutionSignaled = ''ExternalWorkflowExecutionSignaled''"
definition EventTypeSignalExternalWorkflowExecutionFailed :: string where
  "EventTypeSignalExternalWorkflowExecutionFailed = ''SignalExternalWorkflowExecutionFailed''"
definition EventTypeRequestCancelExternalWorkflowExecutionInitiated :: string where
  "EventTypeRequestCancelExternalWorkflowExecutionInitiated =
     ''RequestCancelExternalWorkflowExecutionInitiated''"
definition EventTypeRequestCancelExternalWorkflowExecutionFailed :: string where
  "EventTypeRequestCancelExternalWorkflowExecutionFailed =
     ''RequestCancelExternalWorkflowExecutionFailed''"
definition EventTypeExternalWorkflowExecutionCancelRequested :: string where
  "EventTypeExternalWorkflowExecutionCancelRequested = ''ExternalWorkflowExecutionCancelRequested''"
definition EventTypeTimerStarted :: string where
  "EventTypeTimerStarted = ''TimerStarted''"
definition EventTypeTimerFired :: string where
  "EventTypeTimerFired = ''TimerFired''"
definition EventTypeTimerCanceled :: string where
  "EventTypeTimerCanceled = ''TimerCanceled''"
definition EventTypeStartChildWorkflowExecutionInitiated :: string where
  "EventTypeStartChildWorkflowExecutionInitiated = ''StartChildWorkflowExecutionInitiated''"
definition EventTypeStartChildWorkflowExecutionFailed :: string where
  "EventTypeStartChildWorkflowExecutionFailed = ''StartChildWorkflowExecutionFailed''"
definition EventTypeChildWorkflowExecutionStarted :: string where
  "EventTypeChildWorkflowExecutionStarted = ''ChildWorkflowExecutionStarted''"
definition EventTypeWorkflowExecutionSignaled :: string where
  "EventTypeWorkflowExecutionSignaled = ''WorkflowExecutionSignaled''"
definition EventTypeWorkflowExecutionStarted :: string where
  "EventTypeWorkflowExecutionStarted = ''WorkflowExecutionStarted''"
definition EventTypeMarkerRecorded :: string where
  "EventTypeMarkerRecorded = ''MarkerRecorded''"
definition EventTypeDecisionTaskScheduled :: string where
  "EventTypeDecisionTaskScheduled = ''DecisionTaskScheduled''"
definition EventTypeDecisionTaskStarted :: string where
  "EventTypeDecisionTaskStarted = ''DecisionTaskStarted''"
definition EventTypeDecisionTaskCompleted :: string where
  "EventTypeDecisionTaskCompleted = ''DecisionTaskCompleted''"

section \<open>EventCorrelator\<close>

record ActivityInfo =
  ai_ActivityId :: string
  ai_ActivityType :: "ActivityType option"

record SignalInfo =
  si_SignalName :: string
  si_WorkflowId :: string

record TimerInfo =
  ti_Control :: string
  ti_TimerId :: string

record CancellationInfo =
  ci_WorkflowId :: string

record ChildInfo =
  ch_WorkflowId :: string
  ch_WorkflowType :: "WorkflowType option"

record SerializedActivityState =
  sas_ActivityId :: string
  sas_Input :: "string option"

text \<open>
  The struct \<open>EventCorrelator\<close>. The map values are pointers (\<open>*ActivityInfo\<close>), so an
  entry may hold nil. Of the \<open>Serializer\<close> interface the correlator calls only
  \<open>Deserialize\<close> into a new \<open>SerializedActivityState\<close>, ignoring the error: the field is
  nil or the function giving the state after that call. \<open>toForget\<close> is only ever compared
  with another pointer, so it is nil or an address.
\<close>

record EventCorrelator =
  Activities :: "(string, ActivityInfo option) gomap"
  ActivityAttempts :: "(string, goint) gomap"
  Signals :: "(string, SignalInfo option) gomap"
  SignalAttempts :: "(string, goint) gomap"
  Timers :: "(string, TimerInfo option) gomap"
  Cancellations :: "(string, CancellationInfo option) gomap"
  CancelationAttempts :: "(string, goint) gomap"
  Children :: "(string, ChildInfo option) gomap"
  ChildrenAttempts :: "(string, goint) gomap"
  Serializer :: "(string \<Rightarrow> SerializedActivityState) option"
  toForget :: "nat option"

text \<open>
  Modelled from the spec: the signal-name constants \<open>ActivityStartedSignal\<close> and
  \<open>ActivityUpdatedSignal\<close> are declared in a file that is not among the sources; the
  specification names the special signals \<open>ActivityStarted\<close> and \<open>ActivityUpdated\<close>.
\<close>

definition ActivityStartedSignal :: string where
  "ActivityStartedSignal = ''ActivityStarted''"

definition ActivityUpdatedSignal :: string where
  "ActivityUpdatedSignal = ''ActivityUpdated''"

definition checkInit :: "EventCorrelator \<Rightarrow> EventCorrelator" where
  "checkInit a = a\<lparr>
     Activities := mapInit (Activities a),
     ActivityAttempts := mapInit (ActivityAttempts a),
     Signals := mapInit (Signals a),
     SignalAttempts := mapInit (SignalAttempts a),
     Timers := mapInit (Timers a),
     Cancellations := mapInit (Cancellations a),
     CancelationAttempts := mapInit (CancelationAttempts a),
     Children := mapInit (Children a),
     ChildrenAttempts := mapInit (ChildrenAttempts a)\<rparr>"

definition nilSafeEq :: "string option \<Rightarrow> string \<Rightarrow> bool" where
  "nilSafeEq sv s = (case sv of None \<Rightarrow> False | Some v \<Rightarrow> v = s)"

definition key :: "int64 option \<Rightarrow> string result" where
  "key eventId = bindR (deref eventId) (\<lambda>i. Inr (FormatInt i))"

definition scheduledKey :: "ScheduledEventRef option \<Rightarrow> string result" where
  "scheduledKey attrs = (case attrs of None \<Rightarrow> Inr [] | Some r \<Rightarrow> key (ScheduledEventId r))"

definition initiatedKey :: "InitiatedEventRef option \<Rightarrow> string result" where
  "initiatedKey attrs = (case attrs of None \<Rightarrow> Inr [] | Some r \<Rightarrow> key (InitiatedEventId r))"

definition startedKey :: "StartedEventRef option \<Rightarrow> string result" where
  "startedKey attrs = (case attrs of None \<Rightarrow> Inr [] | Some r \<Rightarrow> key (StartedEventId r))"

definition signaledId :: "EventCorrelator \<Rightarrow> WorkflowExecutionSignaledEventAttributes option \<Rightarrow> string result" where
  "signaledId a attrs =
     (case attrs of None \<Rightarrow> Inr []
      | Some event \<Rightarrow>
        (case (wes_SignalName event, wes_Input event) of
           (Some signalName, Some input) \<Rightarrow>
             if signalName = ActivityStartedSignal \<or> signalName = ActivityUpdatedSignal
             then bindR (deref (Serializer a)) (\<lambda>deserialize. Inr (sas_ActivityId (deserialize input)))
             else key (wes_ExternalInitiatedEventId event)
         | _ \<Rightarrow> Inr []))"

definition getId :: "EventCorrelator \<Rightarrow> HistoryEvent \<Rightarrow> string result" where
  "getId a h = bindR (deref (EventType h)) (\<lambda>ty.
     if ty = EventTypeActivityTaskCompleted then scheduledKey (ActivityTaskCompletedEventAttributes h)
     else if ty = EventTypeActivityTaskFailed then scheduledKey (ActivityTaskFailedEventAttributes h)
     else if ty = EventTypeActivityTaskTimedOut then scheduledKey (ActivityTaskTimedOutEventAttributes h)
     else if ty = EventTypeActivityTaskCanceled then scheduledKey (ActivityTaskCanceledEventAttributes h)
     else if ty = EventTypeActivityTaskStarted then scheduledKey (ActivityTaskStartedEventAttributes h)
     else if ty = EventTypeExternalWorkflowExecutionSignaled
       then initiatedKey (ExternalWorkflowExecutionSignaledEventAttributes h)
     else if ty = EventTypeSignalExternalWorkflowExecutionFailed
       then initiatedKey (SignalExternalWorkflowExecutionFailedEventAttributes h)
     else if ty = EventTypeRequestCancelExternalWorkflowExecutionFailed
       then initiatedKey (RequestCancelExternalWorkflowExecutionFailedEventAttributes h)
     else if ty = EventTypeExternalWorkflowExecutionCancelRequested
       then initiatedKey (ExternalWorkflowExecutionCancelRequestedEventAttributes h)
     else if ty = EventTypeTimerFired then startedKey (TimerFiredEventAttributes h)
     else if ty = EventTypeTimerCanceled then startedKey (TimerCanceledEventAttributes h)
     else if ty = EventTypeWorkflowExecutionSignaled
       then signaledId a (WorkflowExecutionSignaledEventAttributes h)
     else if ty = EventTypeChildWorkflowExecutionStarted
       then initiatedKey (ChildWorkflowExecutionStartedEventAttributes h)
     else if ty = EventTypeStartChildWorkflowExecutionFailed
       then initiatedKey (StartChildWorkflowExecutionFailedEventAttributes h)
     else Inr [])"

definition signalIdFromInfo :: "SignalInfo option \<Rightarrow> string result" where
  "signalIdFromInfo info = bindR (deref info) (\<lambda>i. Inr (si_SignalName i @ ''->'' @ si_WorkflowId i))"

definition safeActivityId :: "EventCorrelator \<Rightarrow> HistoryEvent \<Rightarrow> string result" where
  "safeActivityId a h = bindR (getId a h) (\<lambda>ident.
     case mapPtr (Activities a) ident of Some info \<Rightarrow> Inr (ai_ActivityId info) | None \<Rightarrow> Inr [])"

definition safeSignalId :: "EventCorrelator \<Rightarrow> HistoryEvent \<Rightarrow> string result" where
  "safeSignalId a h = bindR (getId a h) (\<lambda>ident.
     case mapPtr (Signals a) ident of Some info \<Rightarrow> signalIdFromInfo (Some info) | None \<Rightarrow> Inr [])"

definition safeCancellationId :: "EventCorrelator \<Rightarrow> HistoryEvent \<Rightarrow> string result" where
  "safeCancellationId a h = bindR (getId a h) (\<lambda>ident.
     case mapPtr (Cancellations a) ident of Some info \<Rightarrow> Inr (ci_WorkflowId info) | None \<Rightarrow> Inr [])"

definition safeChildId :: "EventCorrelator \<Rightarrow> HistoryEvent \<Rightarrow> string result" where
  "safeChildId a h = bindR (getId a h) (\<lambda>ident.
     case mapPtr (Children a) ident of Some info \<Rightarrow> Inr (ch_WorkflowId info) | None \<Rightarrow> Inr [])"

definition incrementActivityAttempts :: "EventCorrelator \<Rightarrow> HistoryEvent ptr \<Rightarrow> EventCorrelator mutated" where
  "incrementActivityAttempts a h =
     (case safeActivityId a (val h) of
        Inl e \<Rightarrow> (Some e, a)
      | Inr ident \<Rightarrow>
          if toForget a = Some (addr h)
          then (None, a\<lparr>ActivityAttempts := mapDelete (ActivityAttempts a) ident, toForget := None\<rparr>)
          else if ident \<noteq> []
          then attempt a (mapStore (ActivityAttempts a) ident (mapInt (ActivityAttempts a) ident + 1))
                 (\<lambda>m. a\<lparr>ActivityAttempts := m\<rparr>)
          else (None, a))"

definition incrementSignalAttempts :: "EventCorrelator \<Rightarrow> HistoryEvent ptr \<Rightarrow> EventCorrelator mutated" where
  "incrementSignalAttempts a h =
     (case safeSignalId a (val h) of
        Inl e \<Rightarrow> (Some e, a)
      | Inr ident \<Rightarrow>
          if toForget a = Some (addr h)
          then (None, a\<lparr>SignalAttempts := mapDelete (SignalAttempts a) ident, toForget := None\<rparr>)
          else if ident \<noteq> []
          then attempt a (mapStore (SignalAttempts a) ident (mapInt (SignalAttempts a) ident + 1))
                 (\<lambda>m. a\<lparr>SignalAttempts := m\<rparr>)
          else (None, a))"

definition incrementCancellationAttempts :: "EventCorrelator \<Rightarrow> HistoryEvent ptr \<Rightarrow> EventCorrelator mutated" where
  "incrementCancellationAttempts a h =
     (case safeCancellationId a (val h) of
        Inl e \<Rightarrow> (Some e, a)
      | Inr ident \<Rightarrow>
          if toForget a = Some (addr h)
          then (None, a\<lparr>CancelationAttempts := mapDelete (CancelationAttempts a) ident, toForget := None\<rparr>)
          else if ident \<noteq> []
          then attempt a (mapStore (CancelationAttempts a) ident (mapInt (CancelationAttempts a) ident + 1))
                 (\<lambda>m. a\<lparr>CancelationAttempts := m\<rparr>)
          else (None, a))"

definition incrementChildAttempts :: "EventCorrelator \<Rightarrow> HistoryEvent ptr \<Rightarrow> EventCorrelator mutated" where
  "incrementChildAttempts a h =
     (case safeChildId a (val h) of
        Inl e \<Rightarrow> (Some e, a)
      | Inr ident \<Rightarrow>
          if toForget a = Some (addr h)
          then (None, a\<lparr>ChildrenAttempts := mapDelete (ChildrenAttempts a) ident, toForget := None\<rparr>)
          else if ident \<noteq> []
          then attempt a (mapStore (ChildrenAttempts a) ident (mapInt (ChildrenAttempts a) ident + 1))
                 (\<lambda>m. a\<lparr>ChildrenAttempts := m\<rparr>)
          else (None, a))"

text \<open>
  The keys the \<open>delete\<close> calls of \<open>RemoveCorrelation\<close> compute: there the attribute struct
  is read without a nil check.
\<close>

definition scheduledRef :: "ScheduledEventRef option \<Rightarrow> string result" where
  "scheduledRef attrs = bindR (deref attrs) (\<lambda>r. key (ScheduledEventId r))"

definition initiatedRef :: "InitiatedEventRef option \<Rightarrow> string result" where
  "initiatedRef attrs = bindR (deref attrs) (\<lambda>r. key (InitiatedEventId r))"

definition startedRef :: "StartedEventRef option \<Rightarrow> string result" where
  "startedRef attrs = bindR (deref attrs) (\<lambda>r. key (StartedEventId r))"

definition deleteActivity :: "EventCorrelator \<Rightarrow> ScheduledEventRef option \<Rightarrow> EventCorrelator mutated" where
  "deleteActivity a attrs =
     attempt a (scheduledRef attrs) (\<lambda>k. a\<lparr>Activities := mapDelete (Activities a) k\<rparr>)"

definition RemoveCorrelation :: "EventCorrelator \<Rightarrow> HistoryEvent ptr \<Rightarrow> EventCorrelator mutated" where
  "RemoveCorrelation a0 hp =
     (let a = checkInit a0; h = val hp in
      case EventType h of
        None \<Rightarrow> (None, a)
      | Some ty \<Rightarrow>
        if ty = EventTypeActivityTaskCompleted then
          andThen (attempt a (safeActivityId a h)
                     (\<lambda>ident. a\<lparr>ActivityAttempts := mapDelete (ActivityAttempts a) ident\<rparr>))
            (\<lambda>a. deleteActivity a (ActivityTaskCompletedEventAttributes h))
        else if ty = EventTypeActivityTaskFailed then
          andThen (incrementActivityAttempts a hp)
            (\<lambda>a. deleteActivity a (ActivityTaskFailedEventAttributes h))
        else if ty = EventTypeActivityTaskTimedOut then
          andThen (incrementActivityAttempts a hp)
            (\<lambda>a. deleteActivity a (ActivityTaskTimedOutEventAttributes h))
        else if ty = EventTypeActivityTaskCanceled then
          andThen (attempt a (safeActivityId a h)
                     (\<lambda>ident. a\<lparr>ActivityAttempts := mapDelete (ActivityAttempts a) ident\<rparr>))
            (\<lambda>a. deleteActivity a (ActivityTaskCanceledEventAttributes h))
        else if ty = EventTypeExternalWorkflowExecutionSignaled then
          attempt a
            (bindR (initiatedRef (ExternalWorkflowExecutionSignaledEventAttributes h)) (\<lambda>k.
             bindR (signalIdFromInfo (mapPtr (Signals a) k)) (\<lambda>sid. Inr (k, sid))))
            (\<lambda>(k, sid). a\<lparr>SignalAttempts := mapDelete (SignalAttempts a) sid,
                            Signals := mapDelete (Signals a) k\<rparr>)
        else if ty = EventTypeSignalExternalWorkflowExecutionFailed then
          andThen (incrementSignalAttempts a hp)
            (\<lambda>a. attempt a (initiatedRef (SignalExternalWorkflowExecutionFailedEventAttributes h))
                    (\<lambda>k. a\<lparr>Signals := mapDelete (Signals a) k\<rparr>))
        else if ty = EventTypeTimerFired then
          attempt a (startedRef (TimerFiredEventAttributes h))
            (\<lambda>k. a\<lparr>Timers := mapDelete (Timers a) k\<rparr>)
        else if ty = EventTypeTimerCanceled then
          attempt a (startedRef (TimerCanceledEventAttributes h))
            (\<lambda>k. a\<lparr>Timers := mapDelete (Timers a) k\<rparr>)
        else if ty = EventTypeRequestCancelExternalWorkflowExecutionFailed then
          andThen (incrementCancellationAttempts a hp)
            (\<lambda>a. attempt a (initiatedRef (RequestCancelExternalWorkflowExecutionFailedEventAttributes h))
                    (\<lambda>k. a\<lparr>Cancellations := mapDelete (Cancellations a) k\<rparr>))
        else if ty = EventTypeExternalWorkflowExecutionCancelRequested then
          attempt a
            (bindR (initiatedRef (ExternalWorkflowExecutionCancelRequestedEventAttributes h)) (\<lambda>k.
             bindR (deref (mapPtr (Cancellations a) k)) (\<lambda>info. Inr (k, ci_WorkflowId info))))
            (\<lambda>(k, wid). a\<lparr>CancelationAttempts := mapDelete (CancelationAttempts a) wid,
                            Cancellations := mapDelete (Cancellations a) k\<rparr>)
        else if ty = EventTypeStartChildWorkflowExecutionFailed then
          andThen (incrementChildAttempts a hp)
            (\<lambda>a. attempt a (initiatedRef (StartChildWorkflowExecutionFailedEventAttributes h))
                    (\<lambda>k. a\<lparr>Children := mapDelete (Children a) k\<rparr>))
        else if ty = EventTypeChildWorkflowExecutionStarted then
          attempt a
            (bindR (initiatedRef (ChildWorkflowExecutionStartedEventAttributes h)) (\<lambda>k.
             bindR (deref (mapPtr (Children a) k)) (\<lambda>info. Inr (k, ch_WorkflowId info))))
            (\<lambda>(k, wid). a\<lparr>ChildrenAttempts := mapDelete (ChildrenAttempts a) wid,
                            Children := mapDelete (Children a) k\<rparr>)
        else (None, a))"

text \<open>The five \<open>if\<close> statements of \<open>Correlate\<close>, one definition each, run in sequence.\<close>

definition correlateActivity :: "HistoryEvent \<Rightarrow> EventCorrelator \<Rightarrow> EventCorrelator mutated" where
  "correlateActivity h a =
     (if nilSafeEq (EventType h) EventTypeActivityTaskScheduled then
        attempt a
          (bindR (key (EventId h)) (\<lambda>k.
           bindR (deref (ActivityTaskScheduledEventAttributes h)) (\<lambda>attrs.
           bindR (deref (sch_ActivityId attrs)) (\<lambda>activityId.
           mapStore (Activities a) k
             (Some \<lparr>ai_ActivityId = activityId, ai_ActivityType = sch_ActivityType attrs\<rparr>)))))
          (\<lambda>m. a\<lparr>Activities := m\<rparr>)
      else (None, a))"

definition correlateSignal :: "HistoryEvent \<Rightarrow> EventCorrelator \<Rightarrow> EventCorrelator mutated" where
  "correlateSignal h a =
     (if nilSafeEq (EventType h) EventTypeSignalExternalWorkflowExecutionInitiated then
        attempt a
          (bindR (key (EventId h)) (\<lambda>k.
           bindR (deref (SignalExternalWorkflowExecutionInitiatedEventAttributes h)) (\<lambda>attrs.
           bindR (deref (sig_SignalName attrs)) (\<lambda>signalName.
           bindR (deref (sig_WorkflowId attrs)) (\<lambda>workflowId.
           mapStore (Signals a) k
             (Some \<lparr>si_SignalName = signalName, si_WorkflowId = workflowId\<rparr>))))))
          (\<lambda>m. a\<lparr>Signals := m\<rparr>)
      else (None, a))"

definition correlateCancellation :: "HistoryEvent \<Rightarrow> EventCorrelator \<Rightarrow> EventCorrelator mutated" where
  "correlateCancellation h a =
     (if nilSafeEq (EventType h) EventTypeRequestCancelExternalWorkflowExecutionInitiated then
        attempt a
          (bindR (key (EventId h)) (\<lambda>k.
           bindR (deref (RequestCancelExternalWorkflowExecutionInitiatedEventAttributes h)) (\<lambda>attrs.
           bindR (deref (rc_WorkflowId attrs)) (\<lambda>workflowId.
           mapStore (Cancellations a) k (Some \<lparr>ci_WorkflowId = workflowId\<rparr>)))))
          (\<lambda>m. a\<lparr>Cancellations := m\<rparr>)
      else (None, a))"

definition correlateTimer :: "HistoryEvent \<Rightarrow> EventCorrelator \<Rightarrow> EventCorrelator mutated" where
  "correlateTimer h a =
     (if nilSafeEq (EventType h) EventTypeTimerStarted then
        attempt a
          (bindR (deref (TimerStartedEventAttributes h)) (\<lambda>attrs.
           let control = (case ts_Control attrs of None \<Rightarrow> [] | Some c \<Rightarrow> c) in
           bindR (key (EventId h)) (\<lambda>k.
           bindR (deref (ts_TimerId attrs)) (\<lambda>timerId.
           mapStore (Timers a) k (Some \<lparr>ti_Control = control, ti_TimerId = timerId\<rparr>)))))
          (\<lambda>m. a\<lparr>Timers := m\<rparr>)
      else (None, a))"

definition correlateChild :: "HistoryEvent \<Rightarrow> EventCorrelator \<Rightarrow> EventCorrelator mutated" where
  "correlateChild h a =
     (if nilSafeEq (EventType h) EventTypeStartChildWorkflowExecutionInitiated then
        attempt a
          (bindR (key (EventId h)) (\<lambda>k.
           bindR (deref (StartChildWorkflowExecutionInitiatedEventAttributes h)) (\<lambda>attrs.
           bindR (deref (sc_WorkflowId attrs)) (\<lambda>workflowId.
           mapStore (Children a) k
             (Some \<lparr>ch_WorkflowId = workflowId, ch_WorkflowType = sc_WorkflowType attrs\<rparr>)))))
          (\<lambda>m. a\<lparr>Children := m\<rparr>)
      else (None, a))"

definition Correlate :: "EventCorrelator \<Rightarrow> HistoryEvent \<Rightarrow> EventCorrelator mutated" where
  "Correlate a h =
     andThen (andThen (andThen (andThen (correlateActivity h (checkInit a))
       (correlateSignal h)) (correlateCancellation h)) (correlateTimer h)) (correlateChild h)"

definition Track :: "EventCorrelator \<Rightarrow> HistoryEvent ptr \<Rightarrow> EventCorrelator mutated" where
  "Track a h = andThen (RemoveCorrelation a h) (\<lambda>a. Correlate a (val h))"

definition ForgetCorrelation :: "EventCorrelator \<Rightarrow> HistoryEvent ptr \<Rightarrow> EventCorrelator" where
  "ForgetCorrelation a h = a\<lparr>toForget := Some (addr h)\<rparr>"

text \<open>
  The four attempt lookups: the value returned (or the panic) and the receiver afterwards.
\<close>

definition AttemptsForActivity :: "EventCorrelator \<Rightarrow> ActivityInfo option \<Rightarrow> goint result \<times> EventCorrelator" where
  "AttemptsForActivity a0 info =
     (let a = checkInit a0 in
      (bindR (deref info) (\<lambda>i. Inr (mapInt (ActivityAttempts a) (ai_ActivityId i))), a))"

definition AttemptsForSignal :: "EventCorrelator \<Rightarrow> SignalInfo option \<Rightarrow> goint result \<times> EventCorrelator" where
  "AttemptsForSignal a0 signalInfo =
     (let a = checkInit a0 in
      (bindR (signalIdFromInfo signalInfo) (\<lambda>ident. Inr (mapInt (SignalAttempts a) ident)), a))"

definition AttemptsForCancellation :: "EventCorrelator \<Rightarrow> CancellationInfo option \<Rightarrow> goint result \<times> EventCorrelator" where
  "AttemptsForCancellation a0 info =
     (let a = checkInit a0 in
      (case info of
         None \<Rightarrow> (Inr 0, a)
       | Some i \<Rightarrow> if ci_WorkflowId i = [] then (Inr 0, a)
                   else (Inr (mapInt (CancelationAttempts a) (ci_WorkflowId i)), a)))"

definition AttemptsForChild :: "EventCorrelator \<Rightarrow> ChildInfo option \<Rightarrow> goint result \<times> EventCorrelator" where
  "AttemptsForChild a0 info =
     (let a = checkInit a0 in
      (case info of
         None \<Rightarrow> (Inr 0, a)
       | Some i \<Rightarrow> if ch_WorkflowId i = [] then (Inr 0, a)
                   else (Inr (mapInt (ChildrenAttempts a) (ch_WorkflowId i)), a)))"

text \<open>The zero value \<open>EventCorrelator{}\<close>, which \<open>new(EventCorrelator)\<close> allocates.\<close>

definition zeroCorrelator :: EventCorrelator where
  "zeroCorrelator = \<lparr>Activities = None, ActivityAttempts = None, Signals = None,
     SignalAttempts = None, Timers = None, Cancellations = None, CancelationAttempts = None,
     Children = None, ChildrenAttempts = None, Serializer = None, toForget = None\<rparr>"

section \<open>Markers\<close>

text \<open>The marker names, constants of package \<open>fsm\<close>.\<close>

definition StateMarker :: string where
  "StateMarker = ''FSM.State''"

definition CorrelatorMarker :: string where
  "CorrelatorMarker = ''FSM.Correlator''"

definition ErrorMarker :: string where
  "ErrorMarker = ''FSM.Error''"

text \<open>
  \<open>*e.EventType == swf.EventTypeMarkerRecorded && *e.MarkerRecordedEventAttributes.MarkerName == name\<close>,
  the body of \<open>isStateMarker\<close>, \<open>isCorrelatorMarker\<close> and \<open>isErrorMarker\<close>: the second
  operand is evaluated only when the first holds, and each \<open>*\<close> panics on nil.
\<close>

definition isMarker :: "string \<Rightarrow> HistoryEvent \<Rightarrow> bool result" where
  "isMarker markerName e =
     bindR (deref (EventType e)) (\<lambda>ty.
       if ty = EventTypeMarkerRecorded then
         bindR (deref (MarkerRecordedEventAttributes e)) (\<lambda>attrs.
         bindR (deref (MarkerName attrs)) (\<lambda>n. Inr (n = markerName)))
       else Inr False)"

definition isStateMarker :: "HistoryEvent \<Rightarrow> bool result" where
  "isStateMarker e = isMarker StateMarker e"

definition isCorrelatorMarker :: "HistoryEvent \<Rightarrow> bool result" where
  "isCorrelatorMarker e = isMarker CorrelatorMarker e"

definition isErrorMarker :: "HistoryEvent \<Rightarrow> bool result" where
  "isErrorMarker e = isMarker ErrorMarker e"

section \<open>Activity worker\<close>

text \<open>
  Of \<open>swf.PollForActivityTaskOutput\<close> the failure path reads the task token, the activity
  id, and for its log lines the workflow execution and the activity type, two pointers to
  structs that it dereferences (\<open>task.WorkflowExecution.WorkflowID\<close>,
  \<open>task.ActivityType.Name\<close>; \<open>LS\<close> takes the \<open>*string\<close> as it is). Of the worker it reads
  the two backoff settings and \<open>Serializer\<close>, called only as
  \<open>Deserialize(details, correlator)\<close>: the field is the function from the string and the
  target as passed to the target afterwards and the error returned (a Go \<open>error\<close> is nil
  or a value).
\<close>

record PollForActivityTaskOutput =
  act_TaskToken :: "string option"
  act_ActivityID :: "string option"
  act_WorkflowExecution :: "WorkflowExecution option"
  act_ActivityType :: "ActivityType option"

record ActivityWorker =
  aw_Serializer :: "string \<Rightarrow> EventCorrelator \<Rightarrow> EventCorrelator \<times> error option"
  BackoffOnFailure :: bool
  MaxBackoffSeconds :: goint

text \<open>
  \<open>int(math.Pow(2, float64(exp)))\<close> for \<open>exp \<le> 30\<close>, where \<open>backoff\<close> calls it: a power of
  two with an exponent from 0 to 30 is a float64 and an int exactly; for a negative
  exponent the power lies between 0 and 1 and the conversion truncates it to 0.
\<close>

definition powTwo :: "goint \<Rightarrow> goint" where
  "powTwo exp = (if sint exp < 0 then 0 else 2 ^ nat (sint exp))"

definition backoff :: "ActivityWorker \<Rightarrow> goint \<Rightarrow> goint" where
  "backoff h attempts =
     (let exp = attempts - 1;
          exp = (if 30 < sint exp then 30 else exp);
          backoff = powTwo exp;
          maxBackoff = MaxBackoffSeconds h
      in if sint maxBackoff < sint backoff then maxBackoff else backoff)"

text \<open>
  What the worker does to the outside, in order: the calls to the service and the sleep.
  \<open>Sleep\<close> carries the \<open>time.Duration\<close> passed to \<open>time.Sleep\<close>, in nanoseconds;
  \<open>Second\<close> is \<open>time.Second\<close>.
\<close>

datatype worker_effect =
    GetWorkflowExecutionHistory
  | Sleep int64
  | RespondActivityTaskFailed "string option" string string

definition Second :: int64 where
  "Second = 1000000000"

text \<open>
  The arguments of the \<open>Log.Printf\<close> calls of \<open>fail\<close>, evaluated before the line is
  written: \<open>task.WorkflowExecution.WorkflowID\<close> and \<open>task.ActivityType.Name\<close> panic where
  the struct pointer is nil.
\<close>

definition logFields :: "PollForActivityTaskOutput \<Rightarrow> (string option \<times> string option) result" where
  "logFields task =
     bindR (deref (act_WorkflowExecution task)) (\<lambda>workflowExecution.
     bindR (deref (act_ActivityType task)) (\<lambda>activityType.
       Inr (WorkflowId workflowExecution, at_Name activityType)))"

text \<open>
  The loop of \<open>fail\<close> over the history events (newest first, as \<open>ReverseOrder\<close> asks): it
  stops at the first \<open>FSM.Correlator\<close> marker, and sleeps only if that marker decodes; the
  log line comes between the computation of the backoff and the sleep.
\<close>

fun backoffSleep :: "ActivityWorker \<Rightarrow> PollForActivityTaskOutput \<Rightarrow> HistoryEvent list \<Rightarrow> worker_effect list result" where
  "backoffSleep h task [] = Inr []"
| "backoffSleep h task (e # es) =
     bindR (deref (EventType e)) (\<lambda>ty.
       if ty = EventTypeMarkerRecorded then
         bindR (deref (MarkerRecordedEventAttributes e)) (\<lambda>attrs.
         bindR (deref (MarkerName attrs)) (\<lambda>markerName.
           if markerName = CorrelatorMarker then
             bindR (deref (Details attrs)) (\<lambda>details.
               case aw_Serializer h details zeroCorrelator of
                 (correlator, None) \<Rightarrow>
                   bindR (deref (act_ActivityID task)) (\<lambda>activityID.
                     let attempts = mapInt (ActivityAttempts correlator) activityID;
                         seconds = backoff h attempts
                     in bindR (logFields task) (\<lambda>logged.
                          Inr [Sleep (seconds * Second)]))
               | (correlator, Some err) \<Rightarrow> Inr [])
           else backoffSleep h task es))
       else backoffSleep h task es)"

text \<open>
  \<open>fail\<close>: \<open>hist\<close> is what \<open>GetWorkflowExecutionHistory\<close> answers (an error, or the
  events), \<open>err\<close> the text of the error being reported. The result is the effects up to the
  return or the panic; the log line \<open>at=fail\<close> comes before \<open>RespondActivityTaskFailed\<close>.
\<close>

definition respondFailed :: "PollForActivityTaskOutput \<Rightarrow> string \<Rightarrow> worker_effect list \<Rightarrow> worker_effect list mutated" where
  "respondFailed task err done =
     (case logFields task of
        Inl p \<Rightarrow> (Some p, done)
      | Inr logged \<Rightarrow> (None, done @ [RespondActivityTaskFailed (act_TaskToken task) err err]))"

definition fail :: "ActivityWorker \<Rightarrow> PollForActivityTaskOutput \<Rightarrow> string \<Rightarrow> HistoryEvent list result \<Rightarrow> worker_effect list mutated" where
  "fail h task err hist =
     (if BackoffOnFailure h then
        (case hist of
           Inl histErr \<Rightarrow> respondFailed task err [GetWorkflowExecutionHistory]
         | Inr events \<Rightarrow>
             (case backoffSleep h task events of
                Inl p \<Rightarrow> (Some p, [GetWorkflowExecutionHistory])
              | Inr sleeps \<Rightarrow> respondFailed task err (GetWorkflowExecutionHistory # sleeps)))
      else respondFailed task err [])"

section \<open>ShutdownManager\<close>

text \<open>
  A channel is named by a number. \<open>registeredPollers\<close> is a Go map from the poller's name;
  the model keeps its entries in an association list with one entry per name, whose order
  means nothing: Go does not specify the order in which \<open>range\<close> visits a map, and it may
  differ from one loop to the next. The manager is one made by \<open>NewShutdownManager\<close>, so the
  map is not nil.
\<close>

type_synonym chan = nat

record registeredPoller =
  name :: string
  stopChannel :: chan
  stopAckChannel :: chan

record ShutdownManager =
  registeredPollers :: "(string \<times> registeredPoller) list"

definition NewShutdownManager :: ShutdownManager where
  "NewShutdownManager = \<lparr>registeredPollers = []\<rparr>"

definition Register :: "ShutdownManager \<Rightarrow> string \<Rightarrow> chan \<Rightarrow> chan \<Rightarrow> ShutdownManager" where
  "Register p nm stopChan ackChan =
     p\<lparr>registeredPollers :=
         AList.update nm \<lparr>name = nm, stopChannel = stopChan, stopAckChannel = ackChan\<rparr>
           (registeredPollers p)\<rparr>"

definition Deregister :: "ShutdownManager \<Rightarrow> string \<Rightarrow> ShutdownManager" where
  "Deregister p nm = p\<lparr>registeredPollers := AList.delete nm (registeredPollers p)\<rparr>"

text \<open>The channel operations of a call, in program order.\<close>

datatype chan_op = Send chan bool | Receive chan

text \<open>
  \<open>StopPollers\<close>: the first loop sends \<open>true\<close> on the stop channel of every entry, the
  second receives from the ack channel of every entry, then the map is replaced by an
  empty one. Each loop visits the entries in an order of its own (\<open>sends\<close>, \<open>acks\<close>), any
  arrangement of the map's values; a call that returns has performed all of it.
\<close>

inductive StopPollers :: "ShutdownManager \<Rightarrow> chan_op list \<Rightarrow> ShutdownManager \<Rightarrow> bool" where
  "mset sends = mset (map snd (registeredPollers p)) \<Longrightarrow>
   mset acks = mset (map snd (registeredPollers p)) \<Longrightarrow>
   StopPollers p
     (map (\<lambda>r. Send (stopChannel r) True) sends @ map (\<lambda>r. Receive (stopAckChannel r)) acks)
     (p\<lparr>registeredPollers := []\<rparr>)"

section \<open>The decider runtime: data\<close>

text \<open>
  \<open>swf.Decision\<close> (with the two attribute structs this code builds) and
  \<open>swf.PollForDecisionTaskOutput\<close>. The events of a task are pointers
  (\<open>[]*swf.HistoryEvent\<close>), newest first.
\<close>

record RecordMarkerDecisionAttributes =
  rm_MarkerName :: "string option"
  rm_Details :: "string option"

record ContinueAsNewWorkflowExecutionDecisionAttributes =
  can_Input :: "string option"

record Decision =
  DecisionType :: "string option"
  RecordMarkerDecisionAttributes :: "RecordMarkerDecisionAttributes option"
  ContinueAsNewWorkflowExecutionDecisionAttributes ::
    "ContinueAsNewWorkflowExecutionDecisionAttributes option"

definition DecisionTypeRecordMarker :: string where
  "DecisionTypeRecordMarker = ''RecordMarker''"


record PollForDecisionTaskOutput =
  Events :: "HistoryEvent ptr list"
  PreviousStartedEventId :: "int64 option"
  task_StartedEventId :: "int64 option"
  task_WorkflowType :: "WorkflowType option"
  task_WorkflowExecution :: "WorkflowExecution option"
  TaskToken :: "string option"

record SerializedState =
  StateVersion :: uint64
  StateName :: string
  StateData :: string
  ss_WorkflowId :: string

record SerializedErrorState =
  es_Details :: string
  ErrorEvent :: "HistoryEvent ptr option"
  EarliestUnprocessedEventId :: int64
  LatestUnprocessedEventId :: int64

text \<open>
  The state data is an \<open>interface{}\<close> holding a pointer to the user's struct: the type
  \<open>'d\<close>. \<open>Outcome\<close>, and the \<open>FSMContext\<close> as \<open>Tick\<close> has it once the correlator is
  found (before that it is not read).
\<close>

record 'd Outcome =
  State :: string
  Data :: 'd
  Decisions :: "Decision list"

record 'd FSMContext =
  ctx_WorkflowType :: WorkflowType
  ctx_WorkflowExecution :: WorkflowExecution
  eventCorrelator :: EventCorrelator
  ctx_State :: string
  stateData :: "'d option"
  stateVersion :: uint64

text \<open>
  A decider is user code given the context, the event and a pointer to the data. It may
  change the data in place, and it returns an outcome or panics: the model gives the data
  as the decider left it, and the outcome or the panic value. It is taken not to change
  the context (the specification has deciders pure in the context and the event).
\<close>

datatype 'd decided = Returned "'d Outcome" | Panicked error

type_synonym 'd Decider = "'d FSMContext \<Rightarrow> HistoryEvent ptr \<Rightarrow> 'd \<Rightarrow> 'd \<times> 'd decided"

record 'd FSMState =
  fs_Name :: string
  Decider :: "'d Decider"

text \<open>
  \<open>DecisionErrorHandler\<close>: context, event (nil when the error marker holds none), the
  data before the event, the data after the error, the error; it returns an outcome or
  nil, and an error or nil.
\<close>

type_synonym 'd DecisionErrorHandler =
  "'d FSMContext \<Rightarrow> HistoryEvent ptr option \<Rightarrow> 'd \<Rightarrow> 'd \<Rightarrow> error option \<Rightarrow> 'd Outcome option \<times> error option"

text \<open>
  \<open>DecisionInterceptor\<close>: the two hooks that are handed the outcome give the outcome as
  they leave it. \<open>BeforeTask\<close> is taken to leave the task as it found it, so it has no part
  in the model.
\<close>

record 'd DecisionInterceptor =
  BeforeDecision :: "PollForDecisionTaskOutput \<Rightarrow> 'd FSMContext \<Rightarrow> 'd Outcome \<Rightarrow> 'd Outcome"
  AfterDecision :: "PollForDecisionTaskOutput \<Rightarrow> 'd FSMContext \<Rightarrow> 'd Outcome \<Rightarrow> 'd Outcome"

text \<open>
  A \<open>StateSerializer\<close> has \<open>Serialize(interface{}) (string, error)\<close> and
  \<open>Deserialize(string, interface{}) error\<close>: one function for each type the runtime
  passes, giving the string and the error, or the target after the call and the error.
\<close>

record 'd StateSerializer =
  SerializeData :: "'d \<Rightarrow> string \<times> error option"
  DeserializeData :: "string \<Rightarrow> 'd \<Rightarrow> 'd \<times> error option"
  SerializeState :: "SerializedState \<Rightarrow> string \<times> error option"
  DeserializeState :: "string \<Rightarrow> SerializedState \<Rightarrow> SerializedState \<times> error option"
  SerializeCorrelator :: "EventCorrelator \<Rightarrow> string \<times> error option"
  DeserializeCorrelator :: "string \<Rightarrow> EventCorrelator \<Rightarrow> EventCorrelator \<times> error option"
  SerializeErrorState :: "SerializedErrorState \<Rightarrow> string \<times> error option"
  DeserializeErrorState :: "string \<Rightarrow> SerializedErrorState \<Rightarrow> SerializedErrorState \<times> error option"
  SerializeTask :: "PollForDecisionTaskOutput \<Rightarrow> string \<times> error option"
  DeserializeTask :: "string \<Rightarrow> PollForDecisionTaskOutput \<Rightarrow> PollForDecisionTaskOutput \<times> error option"
  DeserializeActivityState :: "string \<Rightarrow> SerializedActivityState \<Rightarrow> SerializedActivityState \<times> error option"

text \<open>
  Modelled from the spec: the type \<open>Stasher\<close> with \<open>Stash\<close> and \<open>Unstash\<close> is declared in
  a file that is not among the sources; the specification has it keep a deep copy of the
  data by a serialize/deserialize round trip. The two functions are parameters.
\<close>

record 'd Stasher =
  Stash :: "'d \<Rightarrow> string"
  Unstash :: "string \<Rightarrow> 'd \<Rightarrow> 'd"

text \<open>
  The \<open>FSM\<close> after \<open>Init\<close>: the serializers, the error handler and the stasher are set.
  \<open>DataType\<close> stands for the fresh value \<open>zeroStateData\<close> allocates.
\<close>

record 'd FSM =
  fsm_Serializer :: "'d StateSerializer"
  SystemSerializer :: "'d StateSerializer"
  DecisionInterceptor :: "'d DecisionInterceptor option"
  DecisionErrorHandler :: "'d DecisionErrorHandler"
  DataType :: 'd
  AllowPanics :: bool
  states :: "string \<rightharpoonup> 'd FSMState"
  errorHandlers :: "string \<rightharpoonup> 'd DecisionErrorHandler"
  initialState :: "'d FSMState option"
  stasher :: "'d Stasher"

text \<open>What \<open>Tick\<close> returns: \<open>(*FSMContext, []*swf.Decision, *SerializedState, error)\<close>.\<close>

record 'd TickReturn =
  ret_context :: "'d FSMContext option"
  ret_decisions :: "Decision list"
  ret_state :: "SerializedState option"
  ret_err :: "error option"

datatype ('r, 'c) flow = Return 'r | Continue 'c

section \<open>The decider runtime: operations\<close>

definition zeroStateData :: "'d FSM \<Rightarrow> 'd" where
  "zeroStateData f = DataType f"

definition zeroSerializedState :: SerializedState where
  "zeroSerializedState = \<lparr>StateVersion = 0, StateName = [], StateData = [], ss_WorkflowId = []\<rparr>"

definition zeroSerializedErrorState :: SerializedErrorState where
  "zeroSerializedErrorState = \<lparr>es_Details = [], ErrorEvent = None,
     EarliestUnprocessedEventId = 0, LatestUnprocessedEventId = 0\<rparr>"

definition zeroSerializedActivityState :: SerializedActivityState where
  "zeroSerializedActivityState = \<lparr>sas_ActivityId = [], sas_Input = None\<rparr>"

definition zeroTask :: PollForDecisionTaskOutput where
  "zeroTask = \<lparr>Events = [], PreviousStartedEventId = None, task_StartedEventId = None,
     task_WorkflowType = None, task_WorkflowExecution = None, TaskToken = None\<rparr>"

text \<open>
  \<open>err.Error()\<close>, and the error \<open>panicSafeDecide\<close> makes of a recovered panic value \<open>r\<close>:
  \<open>r\<close> itself if it is an \<open>error\<close>, else \<open>fmt.Sprintf("panic in decider: %#v", r)\<close>, where
  \<open>DeciderPanic\<close> holds what \<open>%#v\<close> prints.
\<close>

definition errorString :: "error \<Rightarrow> string" where
  "errorString e = (case e of
      NilPointerDereference \<Rightarrow> ''runtime error: invalid memory address or nil pointer dereference''
    | NilMapAssignment \<Rightarrow> ''assignment to entry in nil map''
    | DeciderPanic v \<Rightarrow> v
    | ErrorValue s \<Rightarrow> s)"

definition recoveredError :: "error \<Rightarrow> error" where
  "recoveredError r = (case r of DeciderPanic v \<Rightarrow> ErrorValue (''panic in decider: '' @ v) | e \<Rightarrow> e)"

text \<open>
  \<open>return nil, nil, nil, errors.Trace(err)\<close>, after \<open>if f.AllowPanics { panic(err) }\<close>.
\<close>

definition abandon :: "error \<Rightarrow> 'd TickReturn" where
  "abandon err = \<lparr>ret_context = None, ret_decisions = [], ret_state = None, ret_err = Some err\<rparr>"

definition giveUp :: "'d FSM \<Rightarrow> error \<Rightarrow> 'd TickReturn result" where
  "giveUp f err = (if AllowPanics f then Inl err else Inr (abandon err))"

definition statefulHistoryEventToSerializedState ::
    "'d FSM \<Rightarrow> HistoryEvent \<Rightarrow> (SerializedState option \<times> error option) result" where
  "statefulHistoryEventToSerializedState f event =
     bindR (isStateMarker event) (\<lambda>sm.
       if sm then
         bindR (deref (MarkerRecordedEventAttributes event)) (\<lambda>attrs.
         bindR (deref (Details attrs)) (\<lambda>details.
           case DeserializeState (SystemSerializer f) details zeroSerializedState of
             (state, err) \<Rightarrow> Inr (Some state, err)))
       else
         bindR (deref (EventType event)) (\<lambda>ty.
           if ty = EventTypeWorkflowExecutionStarted then
             bindR (deref (WorkflowExecutionStartedEventAttributes event)) (\<lambda>attrs.
             bindR (deref (Input attrs)) (\<lambda>input.
               case DeserializeState (fsm_Serializer f) input zeroSerializedState of
                 (state, Some err) \<Rightarrow> Inr (Some state, Some err)
               | (state, None) \<Rightarrow>
                   if StateName state = [] then
                     bindR (deref (initialState f)) (\<lambda>initial.
                       Inr (Some (state\<lparr>StateName := fs_Name initial\<rparr>), None))
                   else Inr (Some state, None)))
           else Inr (None, None)))"

fun findSerializedState ::
    "'d FSM \<Rightarrow> HistoryEvent ptr list \<Rightarrow> (SerializedState option \<times> error option) result" where
  "findSerializedState f [] = Inr (None, Some (ErrorValue ''Cant Find Current Data''))"
| "findSerializedState f (event # events) =
     bindR (statefulHistoryEventToSerializedState f (val event)) (\<lambda>(state, err).
       if state \<noteq> None \<or> err \<noteq> None then Inr (state, err)
       else findSerializedState f events)"

definition newCorrelator :: "'d FSM \<Rightarrow> EventCorrelator" where
  "newCorrelator f = zeroCorrelator\<lparr>Serializer :=
     Some (\<lambda>s. fst (DeserializeActivityState (SystemSerializer f) s zeroSerializedActivityState))\<rparr>"

fun findSerializedEventCorrelator ::
    "'d FSM \<Rightarrow> HistoryEvent ptr list \<Rightarrow> (EventCorrelator \<times> error option) result" where
  "findSerializedEventCorrelator f [] = Inr (newCorrelator f, None)"
| "findSerializedEventCorrelator f (event # events) =
     bindR (isCorrelatorMarker (val event)) (\<lambda>cm.
       if cm then
         bindR (deref (MarkerRecordedEventAttributes (val event))) (\<lambda>attrs.
         bindR (deref (Details attrs)) (\<lambda>details.
           Inr (DeserializeCorrelator (fsm_Serializer f) details (newCorrelator f))))
       else findSerializedEventCorrelator f events)"

fun findSerializedErrorState ::
    "'d FSM \<Rightarrow> HistoryEvent ptr list \<Rightarrow> (SerializedErrorState option \<times> error option) result" where
  "findSerializedErrorState f [] = Inr (None, None)"
| "findSerializedErrorState f (event # events) =
     bindR (isErrorMarker (val event)) (\<lambda>em.
       if em then
         bindR (deref (MarkerRecordedEventAttributes (val event))) (\<lambda>attrs.
         bindR (deref (Details attrs)) (\<lambda>details.
           case DeserializeErrorState (fsm_Serializer f) details zeroSerializedErrorState of
             (errState, err) \<Rightarrow> Inr (Some errState, err)))
       else findSerializedErrorState f events)"

text \<open>
  \<open>findLastEvents\<close>: the loop, with \<open>lastEvents\<close> as it grows by \<open>append\<close>, and the call
  that starts it with the nil slice.
\<close>

fun findLastEventsLoop ::
    "int64 \<Rightarrow> HistoryEvent ptr list \<Rightarrow> HistoryEvent ptr list \<Rightarrow> HistoryEvent ptr list result" where
  "findLastEventsLoop prevStarted lastEvents [] = Inr lastEvents"
| "findLastEventsLoop prevStarted lastEvents (event # events) =
     bindR (deref (EventId (val event))) (\<lambda>eventId.
       if eventId = prevStarted then Inr lastEvents
       else
         bindR (deref (EventType (val event))) (\<lambda>ty.
           if ty = EventTypeDecisionTaskCompleted \<or> ty = EventTypeDecisionTaskScheduled
              \<or> ty = EventTypeDecisionTaskStarted
           then findLastEventsLoop prevStarted lastEvents events
           else if ty = EventTypeMarkerRecorded then
             bindR (isStateMarker (val event)) (\<lambda>sm.
               if sm then findLastEventsLoop prevStarted lastEvents events
               else
                 bindR (isCorrelatorMarker (val event)) (\<lambda>cm.
                   if cm then findLastEventsLoop prevStarted lastEvents events
                   else findLastEventsLoop prevStarted (lastEvents @ [event]) events))
           else findLastEventsLoop prevStarted (lastEvents @ [event]) events))"

definition findLastEvents :: "int64 \<Rightarrow> HistoryEvent ptr list \<Rightarrow> HistoryEvent ptr list result" where
  "findLastEvents prevStarted events = findLastEventsLoop prevStarted [] events"

definition recordStringMarker :: "string \<Rightarrow> string \<Rightarrow> Decision" where
  "recordStringMarker markerName details = \<lparr>
     DecisionType = Some DecisionTypeRecordMarker,
     RecordMarkerDecisionAttributes =
       Some \<lparr>rm_MarkerName = Some markerName, rm_Details = Some details\<rparr>,
     ContinueAsNewWorkflowExecutionDecisionAttributes = None\<rparr>"

text \<open>
  \<open>recordStateMarkers\<close> returns \<open>(decisions, state, err)\<close>; the error of serializing the
  data is overwritten unread, and \<open>*context.WorkflowId\<close> panics on nil.
\<close>

definition recordStateMarkers ::
    "'d FSM \<Rightarrow> 'd FSMContext \<Rightarrow> 'd Outcome \<Rightarrow> EventCorrelator \<Rightarrow> SerializedErrorState option
     \<Rightarrow> (Decision list \<times> SerializedState \<times> error option) result" where
  "recordStateMarkers f context outcome correlator errorState =
     (let serializedData = fst (SerializeData (fsm_Serializer f) (Data outcome)) in
      bindR (deref (WorkflowId (ctx_WorkflowExecution context))) (\<lambda>workflowId.
        let state = \<lparr>StateVersion = stateVersion context + 1, StateName = State outcome,
                      StateData = serializedData, ss_WorkflowId = workflowId\<rparr>
        in case SerializeState (SystemSerializer f) state of
             (serializedMarker, Some err) \<Rightarrow> Inr ([], state, Some err)
           | (serializedMarker, None) \<Rightarrow>
             (case SerializeCorrelator (SystemSerializer f) correlator of
                (serializedCorrelator, Some err) \<Rightarrow> Inr ([], state, Some err)
              | (serializedCorrelator, None) \<Rightarrow>
                (let d = recordStringMarker StateMarker serializedMarker;
                     c = recordStringMarker CorrelatorMarker serializedCorrelator;
                     decisions = [] @ [d, c]
                 in case errorState of
                      None \<Rightarrow> Inr (decisions @ Decisions outcome, state, None)
                    | Some es \<Rightarrow>
                      (case SerializeErrorState (SystemSerializer f) es of
                         (serializedError, Some err) \<Rightarrow> Inr ([], state, Some err)
                       | (serializedError, None) \<Rightarrow>
                           Inr ((decisions @ [recordStringMarker ErrorMarker serializedError])
                                  @ Decisions outcome, state, None))))))"

definition mergeOutcomes :: "'d Outcome \<Rightarrow> 'd Outcome \<Rightarrow> 'd Outcome" where
  "mergeOutcomes final intermediate =
     \<lparr>State = (if State intermediate \<noteq> [] then State intermediate else State final),
      Data = Data intermediate,
      Decisions = Decisions final @ Decisions intermediate\<rparr>"

text \<open>
  \<open>panicSafeDecide\<close> runs \<open>context.Decide\<close>, which calls the decider and then \<open>Track\<close> on
  the context's correlator. A panic of either is recovered into an error unless
  \<open>AllowPanics\<close> is set, when it leaves \<open>Tick\<close>. The context comes back with the correlator
  as \<open>Track\<close> left it; after a panic the data is the data as the decider left it.
\<close>

datatype 'd safe_decide =
    Decided "'d Outcome" "'d FSMContext"
  | Recovered error "'d FSMContext" 'd

definition panicSafeDecide ::
    "'d FSM \<Rightarrow> 'd FSMState \<Rightarrow> 'd FSMContext \<Rightarrow> HistoryEvent ptr \<Rightarrow> 'd \<Rightarrow> 'd safe_decide result" where
  "panicSafeDecide f state context event data =
     (case Decider state context event data of
        (data', Panicked p) \<Rightarrow>
          if AllowPanics f then Inl p else Inr (Recovered (recoveredError p) context data')
      | (data', Returned anOutcome) \<Rightarrow>
          (case Track (eventCorrelator context) event of
             (None, correlator) \<Rightarrow> Inr (Decided anOutcome (context\<lparr>eventCorrelator := correlator\<rparr>))
           | (Some p, correlator) \<Rightarrow>
               if AllowPanics f then Inl p
               else Inr (Recovered (recoveredError p) (context\<lparr>eventCorrelator := correlator\<rparr>) data')))"

text \<open>
  The body of the loop of \<open>Tick\<close> for one event: it returns from \<open>Tick\<close>, or goes on to
  the next event with the context and the merged outcome.
\<close>

definition decideEvent ::
    "'d FSM \<Rightarrow> PollForDecisionTaskOutput \<Rightarrow> 'd FSMContext \<Rightarrow> 'd Outcome \<Rightarrow> HistoryEvent ptr
     \<Rightarrow> ('d TickReturn, 'd FSMContext \<times> 'd Outcome) flow result" where
  "decideEvent f decisionTask context0 outcome e =
     bindR (deref (EventId (val e))) (\<lambda>eventId.
     bindR (deref (EventType (val e))) (\<lambda>eventType.
       case states f (State outcome) of
         None \<Rightarrow>
           Inr (Return (abandon (ErrorValue (''marked-state-not-in-fsm state='' @ State outcome))))
       | Some fsmState \<Rightarrow>
           (let context = context0\<lparr>ctx_State := State outcome, stateData := Some (Data outcome)\<rparr>;
                stashed = Stash (stasher f) (Data outcome)
            in bindR (panicSafeDecide f fsmState context e (Data outcome)) (\<lambda>r.
                 case r of
                   Decided anOutcome context' \<Rightarrow>
                     Inr (Continue (context', mergeOutcomes outcome anOutcome))
                 | Recovered err context' data' \<Rightarrow>
                     (let stashedData = Unstash (stasher f) stashed (zeroStateData f);
                          handler = (case errorHandlers f (fs_Name fsmState) of
                                       None \<Rightarrow> DecisionErrorHandler f | Some h \<Rightarrow> h)
                      in case handler context' (Some e) stashedData data' (Some err) of
                           (Some rescued, notRescued) \<Rightarrow>
                             Inr (Continue (context', mergeOutcomes (outcome\<lparr>Data := data'\<rparr>) rescued))
                         | (None, notRescued) \<Rightarrow>
                             (let notRescuedSerialized =
                                    (case notRescued of None \<Rightarrow> [] | Some ne \<Rightarrow> errorString ne)
                              in bindR (deref (PreviousStartedEventId decisionTask)) (\<lambda>prevStarted.
                                 bindR (deref (task_StartedEventId decisionTask)) (\<lambda>started.
                                   let errorState = \<lparr>es_Details = notRescuedSerialized,
                                         ErrorEvent = Some e,
                                         EarliestUnprocessedEventId = prevStarted + 1,
                                         LatestUnprocessedEventId = started\<rparr>
                                   in bindR (recordStateMarkers f context' (outcome\<lparr>Data := data'\<rparr>)
                                               (eventCorrelator context') (Some errorState))
                                        (\<lambda>(final, serializedState, err).
                                           case err of
                                             Some er \<Rightarrow>
                                               (case giveUp f er of Inl p \<Rightarrow> Inl p
                                                | Inr ret \<Rightarrow> Inr (Return ret))
                                           | None \<Rightarrow>
                                               Inr (Return \<lparr>ret_context = Some context',
                                                     ret_decisions = final,
                                                     ret_state = Some serializedState,
                                                     ret_err = None\<rparr>))))))))))"

fun foldEvents ::
    "'d FSM \<Rightarrow> PollForDecisionTaskOutput \<Rightarrow> 'd FSMContext \<Rightarrow> 'd Outcome \<Rightarrow> HistoryEvent ptr list
     \<Rightarrow> ('d TickReturn, 'd FSMContext \<times> 'd Outcome) flow result" where
  "foldEvents f decisionTask context outcome [] = Inr (Continue (context, outcome))"
| "foldEvents f decisionTask context outcome (e # es) =
     bindR (decideEvent f decisionTask context outcome e) (\<lambda>r.
       case r of
         Return ret \<Rightarrow> Inr (Return ret)
       | Continue (context', outcome') \<Rightarrow> foldEvents f decisionTask context' outcome' es)"

text \<open>
  After the loop: the log line that reads \<open>*d.DecisionType\<close> of every decision, the
  \<open>AfterDecision\<close> interceptor, the markers.
\<close>

definition tickFinish ::
    "'d FSM \<Rightarrow> PollForDecisionTaskOutput \<Rightarrow> 'd FSMContext \<Rightarrow> 'd Outcome \<Rightarrow> 'd TickReturn result" where
  "tickFinish f decisionTask context0 outcome0 =
     (if list_all (\<lambda>d. DecisionType d \<noteq> None) (Decisions outcome0) then
        (let (context, outcome) =
               (case DecisionInterceptor f of
                  None \<Rightarrow> (context0, outcome0)
                | Some i \<Rightarrow>
                    (let context = context0\<lparr>ctx_State := State outcome0,
                                            stateData := Some (Data outcome0)\<rparr>
                     in (context, AfterDecision i decisionTask context outcome0)))
         in bindR (recordStateMarkers f context outcome (eventCorrelator context) None)
              (\<lambda>(final, serializedState, err).
                 case err of
                   Some er \<Rightarrow> giveUp f er
                 | None \<Rightarrow> Inr \<lparr>ret_context = Some context, ret_decisions = final,
                                 ret_state = Some serializedState, ret_err = None\<rparr>))
      else Inl NilPointerDereference)"

text \<open>
  The loop runs over \<open>lastEvents\<close> from its last index down to 0, oldest event first.
\<close>

definition tickEvents ::
    "'d FSM \<Rightarrow> PollForDecisionTaskOutput \<Rightarrow> 'd FSMContext \<Rightarrow> 'd Outcome \<Rightarrow> HistoryEvent ptr list
     \<Rightarrow> 'd TickReturn result" where
  "tickEvents f decisionTask context outcome lastEvents =
     bindR (foldEvents f decisionTask context outcome (rev lastEvents)) (\<lambda>r.
       case r of
         Return ret \<Rightarrow> Inr ret
       | Continue (context', outcome') \<Rightarrow> tickFinish f decisionTask context' outcome')"

text \<open>
  The start of \<open>Tick\<close>, up to the \<open>BeforeDecision\<close> interceptor: it returns from \<open>Tick\<close>
  with an error, or goes on with the context, the outcome and \<open>lastEvents\<close>. The test
  \<open>outcome.Data == nil && outcome.State == ""\<close> is on the outcome just allocated and holds.
\<close>

definition tickSetup ::
    "'d FSM \<Rightarrow> PollForDecisionTaskOutput
     \<Rightarrow> ('d TickReturn, 'd FSMContext \<times> 'd Outcome \<times> HistoryEvent ptr list) flow result" where
  "tickSetup f decisionTask =
     bindR (deref (task_WorkflowType decisionTask)) (\<lambda>workflowType.
     bindR (deref (task_WorkflowExecution decisionTask)) (\<lambda>workflowExecution.
     bindR (deref (PreviousStartedEventId decisionTask)) (\<lambda>prevStarted.
     bindR (findLastEvents prevStarted (Events decisionTask)) (\<lambda>lastEvents.
     bindR (findSerializedState f (Events decisionTask)) (\<lambda>(found, err).
       case err of
         Some er \<Rightarrow> (case giveUp f er of Inl p \<Rightarrow> Inl p | Inr ret \<Rightarrow> Inr (Return ret))
       | None \<Rightarrow>
         bindR (findSerializedEventCorrelator f (Events decisionTask)) (\<lambda>(correlator, err).
           case err of
             Some er \<Rightarrow> (case giveUp f er of Inl p \<Rightarrow> Inl p | Inr ret \<Rightarrow> Inr (Return ret))
           | None \<Rightarrow>
             bindR (deref found) (\<lambda>serializedState.
               case DeserializeData (fsm_Serializer f) (StateData serializedState) (zeroStateData f) of
                 (data, Some er) \<Rightarrow>
                   (case giveUp f er of Inl p \<Rightarrow> Inl p | Inr ret \<Rightarrow> Inr (Return ret))
               | (data, None) \<Rightarrow>
                   (let context = \<lparr>ctx_WorkflowType = workflowType,
                          ctx_WorkflowExecution = workflowExecution,
                          eventCorrelator = correlator, ctx_State = [], stateData = None,
                          stateVersion = StateVersion serializedState\<rparr>;
                        outcome = \<lparr>State = StateName serializedState, Data = data, Decisions = []\<rparr>;
                        outcome = (case DecisionInterceptor f of
                                     None \<Rightarrow> outcome
                                   | Some i \<Rightarrow> BeforeDecision i decisionTask context outcome)
                    in Inr (Continue (context, outcome, lastEvents))))))))))"

text \<open>The loop of \<open>ErrorStateTick\<close> that drops the error markers.\<close>

fun withoutErrorMarkers :: "HistoryEvent ptr list \<Rightarrow> HistoryEvent ptr list result" where
  "withoutErrorMarkers [] = Inr []"
| "withoutErrorMarkers (h # hs) =
     bindR (isErrorMarker (val h)) (\<lambda>em.
     bindR (withoutErrorMarkers hs) (\<lambda>filtered.
       Inr (if em then filtered else h # filtered)))"

text \<open>
  \<open>Tick\<close> and \<open>ErrorStateTick\<close> call each other. \<open>ErrorStateTick\<close> returns
  \<open>(*Outcome, error)\<close>.
\<close>

function Tick :: "'d FSM \<Rightarrow> PollForDecisionTaskOutput \<Rightarrow> 'd TickReturn result"
  and ErrorStateTick ::
    "'d FSM \<Rightarrow> PollForDecisionTaskOutput \<Rightarrow> SerializedErrorState \<Rightarrow> 'd FSMContext \<Rightarrow> 'd
     \<Rightarrow> ('d Outcome option \<times> error option) result" where
  "Tick f decisionTask =
     (case tickSetup f decisionTask of
        Inl p \<Rightarrow> Inl p
      | Inr (Return ret) \<Rightarrow> Inr ret
      | Inr (Continue (context, outcome, lastEvents)) \<Rightarrow>
          (case findSerializedErrorState f (Events decisionTask) of
             Inl p \<Rightarrow> Inl p
           | Inr (None, err) \<Rightarrow> tickEvents f decisionTask context outcome lastEvents
           | Inr (Some errorState, err) \<Rightarrow>
               (case ErrorStateTick f decisionTask errorState context (Data outcome) of
                  Inl p \<Rightarrow> Inl p
                | Inr (Some recovery, err') \<Rightarrow> tickEvents f decisionTask context recovery lastEvents
                | Inr (None, err') \<Rightarrow>
                    bindR (deref (task_StartedEventId decisionTask)) (\<lambda>started.
                    bindR (recordStateMarkers f context outcome (eventCorrelator context)
                             (Some (errorState\<lparr>LatestUnprocessedEventId := started\<rparr>)))
                      (\<lambda>(final, serializedState, err).
                         Inr \<lparr>ret_context = Some context, ret_decisions = final,
                              ret_state = Some serializedState, ret_err = err\<rparr>)))))"
| "ErrorStateTick f decisionTask errorState context data =
     (let handler = (case errorHandlers f (ctx_State context) of
                       None \<Rightarrow> DecisionErrorHandler f | Some h \<Rightarrow> h)
      in case handler context (ErrorEvent errorState) data data None of
           (None, notHandled) \<Rightarrow> Inr (None, notHandled)
         | (Some handled, notHandled) \<Rightarrow>
             (case SerializeTask (SystemSerializer f) decisionTask of
                (s, Some e) \<Rightarrow> Inr (None, Some e)
              | (s, None) \<Rightarrow>
                  (case DeserializeTask (SystemSerializer f) s zeroTask of
                     (filteredDecisionTask, Some e) \<Rightarrow> Inr (None, Some e)
                   | (filteredDecisionTask, None) \<Rightarrow>
                       (case withoutErrorMarkers (Events decisionTask) of
                          Inl p \<Rightarrow> Inl p
                        | Inr filtered \<Rightarrow>
                            (case Tick f (filteredDecisionTask\<lparr>Events := filtered,
                                     task_StartedEventId := Some (LatestUnprocessedEventId errorState),
                                     PreviousStartedEventId := Some (EarliestUnprocessedEventId errorState)\<rparr>) of
                               Inl p \<Rightarrow> Inl p
                             | Inr ret \<Rightarrow>
                                 (case ret_err ret of
                                    Some err \<Rightarrow>
                                      bindR (deref (ret_state ret)) (\<lambda>serializedState.
                                        case DeserializeData (fsm_Serializer f)
                                               (StateData serializedState) (zeroStateData f) of
                                          (data', Some e) \<Rightarrow> Inl e
                                        | (data', None) \<Rightarrow>
                                            Inr (Some \<lparr>State = StateName serializedState, Data = data',
                                                        Decisions = ret_decisions ret\<rparr>, None))
                                  | None \<Rightarrow> Inr (None, None)))))))"
  by pat_completeness auto


text \<open>
  \<open>ErrorStateTick\<close> is entered only for a task with an error marker, and the task it
  hands to \<open>Tick\<close> has none: the calls end.
\<close>

lemma findSerializedErrorState_found:
  "findSerializedErrorState f events = Inr (Some es, err) \<Longrightarrow>
   \<exists>h\<in>set events. isErrorMarker (val h) = Inr True"
proof (induction events)
  case Nil
  then show ?case by simp
next
  case (Cons e events)
  then show ?case
    by (cases "isErrorMarker (val e)") (auto simp: bindR_def split: if_splits sum.splits prod.splits)
qed

lemma withoutErrorMarkers_clean:
  "withoutErrorMarkers hs = Inr filtered \<Longrightarrow> h \<in> set filtered \<Longrightarrow>
   isErrorMarker (val h) \<noteq> Inr True"
proof (induction hs arbitrary: filtered)
  case Nil
  then show ?case by simp
next
  case (Cons e hs)
  then show ?case
    by (cases "isErrorMarker (val e)"; cases "withoutErrorMarkers hs")
       (auto simp: bindR_def split: if_splits)
qed

termination Tick
  apply (relation "measure (\<lambda>x. case x of
      Inl (f, task) \<Rightarrow> (if \<exists>h\<in>set (Events task). isErrorMarker (val h) = Inr True then 2 else 0)
    | Inr (f, task, es, ctx, d) \<Rightarrow> 1)")
    apply simp
  subgoal using findSerializedErrorState_found by fastforce
  subgoal using withoutErrorMarkers_clean by fastforce
  done

declare Tick.simps [simp del] ErrorStateTick.simps [simp del]



section \<open>The unprocessed events, as the specification words them\<close>

text \<open>
  The id of an event, for statements about a whole history (\<open>0\<close> where the pointer is nil;
  the code dereferences the ids it reads).
\<close>

definition eventIdOf :: "HistoryEvent ptr \<Rightarrow> int64" where
  "eventIdOf e = (case EventId (val e) of None \<Rightarrow> 0 | Some i \<Rightarrow> i)"

text \<open>
  The specification of the event selection, to be compared with \<open>findLastEvents\<close> and the loop
  of \<open>Tick\<close>: the events left out are the \<open>DecisionTaskScheduled\<close>, \<open>DecisionTaskStarted\<close> and
  \<open>DecisionTaskCompleted\<close> events and the \<open>MarkerRecorded\<close> events named \<open>FSM.State\<close>,
  \<open>FSM.Correlator\<close> or \<open>FSM.Error\<close>; the events processed are the others whose id is greater
  than \<open>previousStartedEventId\<close>, oldest first.
\<close>

definition specExcluded :: "HistoryEvent \<Rightarrow> bool" where
  "specExcluded e =
     (case EventType e of
        None \<Rightarrow> False
      | Some ty \<Rightarrow>
          ty = EventTypeDecisionTaskScheduled \<or> ty = EventTypeDecisionTaskStarted
          \<or> ty = EventTypeDecisionTaskCompleted
          \<or> (ty = EventTypeMarkerRecorded \<and>
               (case MarkerRecordedEventAttributes e of
                  None \<Rightarrow> False
                | Some attrs \<Rightarrow> MarkerName attrs = Some StateMarker
                    \<or> MarkerName attrs = Some CorrelatorMarker
                    \<or> MarkerName attrs = Some ErrorMarker)))"

definition specUnprocessed :: "int64 \<Rightarrow> HistoryEvent ptr list \<Rightarrow> HistoryEvent ptr list" where
  "specUnprocessed prevStarted events =
     rev (filter (\<lambda>e. sint prevStarted < sint (eventIdOf e) \<and> \<not> specExcluded (val e)) events)"

section \<open>Concrete values\<close>

text \<open>The zero value \<open>swf.HistoryEvent{}\<close>, and events built from it.\<close>

definition zeroEvent :: HistoryEvent where
  "zeroEvent = \<lparr>EventId = None, EventType = None,
     ActivityTaskScheduledEventAttributes = None, ActivityTaskStartedEventAttributes = None,
     ActivityTaskCompletedEventAttributes = None, ActivityTaskFailedEventAttributes = None,
     ActivityTaskTimedOutEventAttributes = None, ActivityTaskCanceledEventAttributes = None,
     SignalExternalWorkflowExecutionInitiatedEventAttributes = None,
     ExternalWorkflowExecutionSignaledEventAttributes = None,
     SignalExternalWorkflowExecutionFailedEventAttributes = None,
     RequestCancelExternalWorkflowExecutionInitiatedEventAttributes = None,
     RequestCancelExternalWorkflowExecutionFailedEventAttributes = None,
     ExternalWorkflowExecutionCancelRequestedEventAttributes = None,
     TimerStartedEventAttributes = None, TimerFiredEventAttributes = None,
     TimerCanceledEventAttributes = None,
     StartChildWorkflowExecutionInitiatedEventAttributes = None,
     StartChildWorkflowExecutionFailedEventAttributes = None,
     ChildWorkflowExecutionStartedEventAttributes = None,
     WorkflowExecutionSignaledEventAttributes = None,
     MarkerRecordedEventAttributes = None,
     WorkflowExecutionStartedEventAttributes = None\<rparr>"

definition exScheduled :: "int64 \<Rightarrow> string \<Rightarrow> HistoryEvent" where
  "exScheduled k activityId = zeroEvent\<lparr>EventId := Some k,
     EventType := Some EventTypeActivityTaskScheduled,
     ActivityTaskScheduledEventAttributes :=
       Some \<lparr>sch_ActivityId = Some activityId, sch_ActivityType = None\<rparr>\<rparr>"

definition exFailed :: "int64 \<Rightarrow> int64 \<Rightarrow> HistoryEvent" where
  "exFailed k scheduled = zeroEvent\<lparr>EventId := Some k,
     EventType := Some EventTypeActivityTaskFailed,
     ActivityTaskFailedEventAttributes := Some \<lparr>ScheduledEventId = Some scheduled\<rparr>\<rparr>"

definition exCompleted :: "int64 \<Rightarrow> int64 \<Rightarrow> HistoryEvent" where
  "exCompleted k scheduled = zeroEvent\<lparr>EventId := Some k,
     EventType := Some EventTypeActivityTaskCompleted,
     ActivityTaskCompletedEventAttributes := Some \<lparr>ScheduledEventId = Some scheduled\<rparr>\<rparr>"

text \<open>
  A correlator that already counts one failed attempt of activity \<open>A1\<close>: the zero value
  after an \<open>ActivityTaskScheduled\<close> event (id 5) and its \<open>ActivityTaskFailed\<close> event (id 7).
\<close>

definition exRetried :: EventCorrelator where
  "exRetried = snd (Track (snd (Track zeroCorrelator (1, exScheduled 5 ''A1''))) (2, exFailed 7 5))"

definition exMarker :: "int64 \<Rightarrow> string \<Rightarrow> string \<Rightarrow> HistoryEvent" where
  "exMarker k markerName details = zeroEvent\<lparr>EventId := Some k,
     EventType := Some EventTypeMarkerRecorded,
     MarkerRecordedEventAttributes := Some \<lparr>MarkerName = Some markerName, Details = Some details\<rparr>\<rparr>"

definition exEvent :: "int64 \<Rightarrow> string \<Rightarrow> HistoryEvent" where
  "exEvent k ty = zeroEvent\<lparr>EventId := Some k, EventType := Some ty\<rparr>"

text \<open>
  An activity worker with backoff on, whose serializer decodes every correlator marker to a
  correlator counting \<open>attempts\<close> attempts of activity \<open>A1\<close>; and a task of that activity.
\<close>

definition exWorker :: "goint \<Rightarrow> goint \<Rightarrow> ActivityWorker" where
  "exWorker maxBackoff attempts = \<lparr>
     aw_Serializer = (\<lambda>details c. (c\<lparr>ActivityAttempts := Some [''A1'' \<mapsto> attempts]\<rparr>, None)),
     BackoffOnFailure = True,
     MaxBackoffSeconds = maxBackoff\<rparr>"

definition exActivityTask :: PollForActivityTaskOutput where
  "exActivityTask = \<lparr>act_TaskToken = Some ''token'', act_ActivityID = Some ''A1'',
     act_WorkflowExecution = Some \<lparr>WorkflowId = Some ''id'', RunId = Some ''run''\<rparr>,
     act_ActivityType = Some \<lparr>at_Name = Some ''activity'', at_Version = Some ''1''\<rparr>\<rparr>"

text \<open>A shutdown manager with two pollers, registered in the order \<open>p1\<close>, \<open>p2\<close>.\<close>

definition exManager :: ShutdownManager where
  "exManager = Register (Register NewShutdownManager ''p1'' 1 2) ''p2'' 3 4"


text \<open>
  A small FSM over string data. Its serializer writes a state as its version and name, and
  reads every state back with version 23 and no name (version \<open>2^64 - 1\<close> from the input
  \<open>last\<close>), every correlator as the empty one and every error state as the range 2 to 5;
  a cloned task gets the workflow type and execution of \<open>exTask\<close>.
\<close>

definition exState :: "uint64 \<Rightarrow> SerializedState" where
  "exState v = \<lparr>StateVersion = v, StateName = [], StateData = ''data'', ss_WorkflowId = []\<rparr>"

definition exWorkflowType :: WorkflowType where
  "exWorkflowType = \<lparr>wt_Name = Some ''wf'', wt_Version = Some ''1''\<rparr>"

definition exWorkflowExecution :: WorkflowExecution where
  "exWorkflowExecution = \<lparr>WorkflowId = Some ''id'', RunId = Some ''run''\<rparr>"

definition exSerializer :: "string StateSerializer" where
  "exSerializer = \<lparr>
     SerializeData = (\<lambda>d. (d, None)),
     DeserializeData = (\<lambda>s z. (s, None)),
     SerializeState = (\<lambda>st. (''state '' @ decimal (unat (StateVersion st)) @ '' '' @ StateName st, None)),
     DeserializeState = (\<lambda>s z. (if s = ''last'' then exState (- 1) else exState 23, None)),
     SerializeCorrelator = (\<lambda>c. (''correlator'', None)),
     DeserializeCorrelator = (\<lambda>s z. (z, None)),
     SerializeErrorState = (\<lambda>es. (''error '' @ FormatInt (EarliestUnprocessedEventId es)
         @ '' '' @ FormatInt (LatestUnprocessedEventId es), None)),
     DeserializeErrorState = (\<lambda>s z.
         (z\<lparr>EarliestUnprocessedEventId := 2, LatestUnprocessedEventId := 5\<rparr>, None)),
     SerializeTask = (\<lambda>t. (''task'', None)),
     DeserializeTask = (\<lambda>s z. (z\<lparr>task_WorkflowType := Some exWorkflowType,
         task_WorkflowExecution := Some exWorkflowExecution\<rparr>, None)),
     DeserializeActivityState = (\<lambda>s z. (z, None))\<rparr>"

definition exDecision :: "string \<Rightarrow> Decision" where
  "exDecision ty = \<lparr>DecisionType = Some ty, RecordMarkerDecisionAttributes = None,
     ContinueAsNewWorkflowExecutionDecisionAttributes = None\<rparr>"

text \<open>
  State \<open>start\<close> schedules an activity and goes to \<open>working\<close>; state \<open>working\<close> changes
  the data and panics with the string \<open>boom\<close>, which \<open>%#v\<close> prints between double quotes.
\<close>

definition exBoom :: string where
  "exBoom = CHR 0x22 # ''boom'' @ [CHR 0x22]"

definition exStart :: "string FSMState" where
  "exStart = \<lparr>fs_Name = ''start'',
     Decider = (\<lambda>ctx e d. (d, Returned \<lparr>State = ''working'', Data = d @ ''+'',
                  Decisions = [exDecision ''ScheduleActivityTask'']\<rparr>))\<rparr>"

definition exWorking :: "string FSMState" where
  "exWorking = \<lparr>fs_Name = ''working'',
     Decider = (\<lambda>ctx e d. (d @ ''!'', Panicked (DeciderPanic exBoom)))\<rparr>"

text \<open>
  The default handler (\<open>DefaultDecisionErrorHandler\<close> returns \<open>nil, err\<close>) and a handler
  that rescues with the data before the event.
\<close>

definition exDefaultHandler :: "string DecisionErrorHandler" where
  "exDefaultHandler = (\<lambda>ctx e stateBeforeEvent stateAfterError err. (None, err))"

definition exRescuingHandler :: "string DecisionErrorHandler" where
  "exRescuingHandler = (\<lambda>ctx e stateBeforeEvent stateAfterError err.
     (Some \<lparr>State = ''start'', Data = stateBeforeEvent, Decisions = []\<rparr>, None))"

definition exFSM :: "string DecisionErrorHandler \<Rightarrow> string FSM" where
  "exFSM handler = \<lparr>fsm_Serializer = exSerializer, SystemSerializer = exSerializer,
     DecisionInterceptor = None, DecisionErrorHandler = handler, DataType = [],
     AllowPanics = False, states = [''start'' \<mapsto> exStart, ''working'' \<mapsto> exWorking],
     errorHandlers = Map.empty, initialState = Some exStart,
     stasher = \<lparr>Stash = (\<lambda>d. d), Unstash = (\<lambda>s z. s)\<rparr>\<rparr>"

definition exStartedEvent :: "int64 \<Rightarrow> string \<Rightarrow> HistoryEvent" where
  "exStartedEvent k input = zeroEvent\<lparr>EventId := Some k,
     EventType := Some EventTypeWorkflowExecutionStarted,
     WorkflowExecutionStartedEventAttributes := Some \<lparr>Input = Some input\<rparr>\<rparr>"

definition exTask :: "int64 \<Rightarrow> int64 \<Rightarrow> HistoryEvent ptr list \<Rightarrow> PollForDecisionTaskOutput" where
  "exTask prevStarted started events = \<lparr>Events = events,
     PreviousStartedEventId = Some prevStarted, task_StartedEventId = Some started,
     task_WorkflowType = Some exWorkflowType, task_WorkflowExecution = Some exWorkflowExecution,
     TaskToken = Some ''token''\<rparr>"


text \<open>
  A task with two signals since the last decision task: the decider of \<open>start\<close> decides
  event 4, the decider of \<open>working\<close> panics on event 5.
\<close>

definition exPanicTask :: PollForDecisionTaskOutput where
  "exPanicTask = exTask 3 6
     [(6, exEvent 6 EventTypeDecisionTaskStarted),
      (5, exEvent 5 EventTypeWorkflowExecutionSignaled),
      (4, exEvent 4 EventTypeWorkflowExecutionSignaled),
      (3, exEvent 3 EventTypeDecisionTaskStarted),
      (1, exStartedEvent 1 ''first'')]"

text \<open>A task whose history holds an error marker, recorded by the decision task before it.\<close>

definition exErrorTask :: PollForDecisionTaskOutput where
  "exErrorTask = exTask 6 9
     [(9, exEvent 9 EventTypeDecisionTaskStarted),
      (8, exMarker 8 ErrorMarker ''e''),
      (1, exStartedEvent 1 ''first'')]"

text \<open>
  The error state the example serializer decodes, a context as \<open>Tick\<close> sets it up for
  \<open>exErrorTask\<close>, and the task \<open>ErrorStateTick\<close> hands to the shadow tick.
\<close>

definition exErrorState :: SerializedErrorState where
  "exErrorState = zeroSerializedErrorState\<lparr>EarliestUnprocessedEventId := 2,
     LatestUnprocessedEventId := 5\<rparr>"

definition exContext :: "string FSMContext" where
  "exContext = \<lparr>ctx_WorkflowType = exWorkflowType, ctx_WorkflowExecution = exWorkflowExecution,
     eventCorrelator = zeroCorrelator, ctx_State = [], stateData = None, stateVersion = 23\<rparr>"

definition exShadowTask :: PollForDecisionTaskOutput where
  "exShadowTask = zeroTask\<lparr>task_WorkflowType := Some exWorkflowType,
     task_WorkflowExecution := Some exWorkflowExecution,
     Events := [(9, exEvent 9 EventTypeDecisionTaskStarted), (1, exStartedEvent 1 ''first'')],
     task_StartedEventId := Some 5, PreviousStartedEventId := Some 2\<rparr>"


section \<open>Facts about the common definitions\<close>

lemmas EventType_defs =
  EventTypeActivityTaskScheduled_def EventTypeActivityTaskStarted_def
  EventTypeActivityTaskCompleted_def EventTypeActivityTaskFailed_def
  EventTypeActivityTaskTimedOut_def EventTypeActivityTaskCanceled_def
  EventTypeSignalExternalWorkflowExecutionInitiated_def
  EventTypeExternalWorkflowExecutionSignaled_def
  EventTypeSignalExternalWorkflowExecutionFailed_def
  EventTypeRequestCancelExternalWorkflowExecutionInitiated_def
  EventTypeRequestCancelExternalWorkflowExecutionFailed_def
  EventTypeExternalWorkflowExecutionCancelRequested_def
  EventTypeTimerStarted_def EventTypeTimerFired_def EventTypeTimerCanceled_def
  EventTypeStartChildWorkflowExecutionInitiated_def
  EventTypeStartChildWorkflowExecutionFailed_def
  EventTypeChildWorkflowExecutionStarted_def
  EventTypeWorkflowExecutionSignaled_def EventTypeWorkflowExecutionStarted_def
  EventTypeMarkerRecorded_def EventTypeDecisionTaskScheduled_def
  EventTypeDecisionTaskStarted_def EventTypeDecisionTaskCompleted_def

section \<open>EventCorrelator: lazy initialisation\<close>

lemma mapInit_idem [simp]: "mapInit (mapInit m) = mapInit m"
  by (simp add: mapInit_def split: option.splits)

lemma mapEntry_mapInit [simp]: "mapEntry (mapInit m) k = mapEntry m k"
  by (simp add: mapInit_def mapEntry_def split: option.splits)

lemma mapPtr_mapInit [simp]: "mapPtr (mapInit m) k = mapPtr m k"
  by (simp add: mapPtr_def)

lemma mapInt_mapInit [simp]: "mapInt (mapInit m) k = mapInt m k"
  by (simp add: mapInt_def)

lemma case_mapInit [simp]:
  "(case mapInit m of None \<Rightarrow> Map.empty | Some t \<Rightarrow> t) = (case m of None \<Rightarrow> Map.empty | Some t \<Rightarrow> t)"
  by (simp add: mapInit_def split: option.splits)

lemma mapStore_mapInit:
  "mapStore (mapInit m) k v = Inr (Some ((case m of None \<Rightarrow> Map.empty | Some t \<Rightarrow> t)(k \<mapsto> v)))"
  by (simp add: mapStore_def mapInit_def split: option.splits)

lemma mapEntry_mapDelete [simp]: "mapEntry (mapDelete m k) k = None"
  by (simp add: mapEntry_def mapDelete_def split: option.splits)

lemma mapInt_mapDelete [simp]: "mapInt (mapDelete m k) k = 0"
  by (simp add: mapInt_def)

lemma checkInit_fields [simp]:
  "Activities (checkInit a) = mapInit (Activities a)"
  "ActivityAttempts (checkInit a) = mapInit (ActivityAttempts a)"
  "Signals (checkInit a) = mapInit (Signals a)"
  "SignalAttempts (checkInit a) = mapInit (SignalAttempts a)"
  "Timers (checkInit a) = mapInit (Timers a)"
  "Cancellations (checkInit a) = mapInit (Cancellations a)"
  "CancelationAttempts (checkInit a) = mapInit (CancelationAttempts a)"
  "Children (checkInit a) = mapInit (Children a)"
  "ChildrenAttempts (checkInit a) = mapInit (ChildrenAttempts a)"
  "Serializer (checkInit a) = Serializer a"
  "toForget (checkInit a) = toForget a"
  by (simp_all add: checkInit_def)

lemma checkInit_idem [simp]: "checkInit (checkInit a) = checkInit a"
  by (simp add: checkInit_def)

lemma RemoveCorrelation_nil_type:
  "EventType (val h) = None \<Longrightarrow> RemoveCorrelation a h = (None, checkInit a)"
  by (simp add: RemoveCorrelation_def Let_def)

lemma Correlate_nil_type:
  "EventType h = None \<Longrightarrow> Correlate a h = (None, checkInit a)"
  by (simp add: Correlate_def correlateActivity_def correlateSignal_def correlateCancellation_def
      correlateTimer_def correlateChild_def nilSafeEq_def andThen_def)

text \<open>
  Claim C10. For a history event whose \<open>EventType\<close> is nil, \<open>Track\<close> on any correlator (the
  zero value included) returns without a panic, and the correlator it leaves is the one it
  was given after \<open>checkInit\<close>: each of the five correlation maps and of the four attempt
  maps is the map it was, a nil map having become the empty map, and \<open>Serializer\<close> and
  \<open>toForget\<close> are untouched.
\<close>

theorem Track_nil_EventType:
  assumes "EventType (val h) = None"
  shows "Track a h = (None, checkInit a)
    \<and> Activities (checkInit a) = mapInit (Activities a)
    \<and> ActivityAttempts (checkInit a) = mapInit (ActivityAttempts a)
    \<and> Signals (checkInit a) = mapInit (Signals a)
    \<and> SignalAttempts (checkInit a) = mapInit (SignalAttempts a)
    \<and> Timers (checkInit a) = mapInit (Timers a)
    \<and> Cancellations (checkInit a) = mapInit (Cancellations a)
    \<and> CancelationAttempts (checkInit a) = mapInit (CancelationAttempts a)
    \<and> Children (checkInit a) = mapInit (Children a)
    \<and> ChildrenAttempts (checkInit a) = mapInit (ChildrenAttempts a)
    \<and> Serializer (checkInit a) = Serializer a
    \<and> toForget (checkInit a) = toForget a"
proof -
  have "Track a h = (None, checkInit a)"
    using assms
    by (simp add: Track_def RemoveCorrelation_nil_type Correlate_nil_type andThen_def)
  then show ?thesis by simp
qed

theorem Track_nil_EventType_witness:
  "EventType (val (0, zeroEvent)) = None
    \<and> Track zeroCorrelator (0, zeroEvent) = (None, checkInit zeroCorrelator)
    \<and> Activities (checkInit zeroCorrelator) = Some Map.empty
    \<and> ActivityAttempts (checkInit zeroCorrelator) = Some Map.empty
    \<and> toForget (checkInit zeroCorrelator) = None"
proof -
  have h: "EventType (val (0, zeroEvent)) = None"
    by (simp add: val_def zeroEvent_def)
  from Track_nil_EventType [OF h, of zeroCorrelator] h show ?thesis
    by (simp add: zeroCorrelator_def mapInit_def)
qed

section \<open>EventCorrelator: the attempt lookups\<close>

text \<open>
  Claim C7, at the input where the code departs from it. \<open>AttemptsForActivity\<close> and
  \<open>AttemptsForSignal\<close> given a nil info panic with a nil pointer dereference (after
  \<open>checkInit\<close>) where the claim has them return 0: they read \<open>info.ActivityId\<close> and
  \<open>info.SignalName\<close> without the nil check their siblings make.
\<close>

theorem AttemptsFor_nil_info_panics:
  "AttemptsForActivity a None = (Inl NilPointerDereference, checkInit a)
   \<and> AttemptsForSignal a None = (Inl NilPointerDereference, checkInit a)"
  by (simp add: AttemptsForActivity_def AttemptsForSignal_def signalIdFromInfo_def
      bindR_def deref_def Let_def)

text \<open>The two siblings check for nil and for the empty key first.\<close>

lemma AttemptsFor_nil_info_guarded:
  "AttemptsForCancellation a None = (Inr 0, checkInit a)"
  "AttemptsForChild a None = (Inr 0, checkInit a)"
  "AttemptsForCancellation a (Some \<lparr>ci_WorkflowId = []\<rparr>) = (Inr 0, checkInit a)"
  "AttemptsForChild a (Some \<lparr>ch_WorkflowId = [], ch_WorkflowType = t\<rparr>) = (Inr 0, checkInit a)"
  by (simp_all add: AttemptsForCancellation_def AttemptsForChild_def Let_def)

text \<open>
  With the empty key \<open>AttemptsForActivity\<close> returns whatever the map holds under it: a
  correlator decoded from a marker can hold a counter there.
\<close>

lemma AttemptsForActivity_empty_key:
  "fst (AttemptsForActivity (zeroCorrelator\<lparr>ActivityAttempts := Some [[] \<mapsto> 3]\<rparr>)
          (Some \<lparr>ai_ActivityId = [], ai_ActivityType = None\<rparr>)) = Inr 3"
  by (simp add: AttemptsForActivity_def Let_def bindR_def deref_def mapInt_def mapEntry_def
      mapInit_def)

text \<open>Where they return, all four leave the receiver as \<open>checkInit\<close> made it, and a key
  with no counter reads as 0.\<close>

lemma AttemptsFor_receiver:
  "snd (AttemptsForActivity a i1) = checkInit a"
  "snd (AttemptsForSignal a i2) = checkInit a"
  "snd (AttemptsForCancellation a i3) = checkInit a"
  "snd (AttemptsForChild a i4) = checkInit a"
  by (simp_all add: AttemptsForActivity_def AttemptsForSignal_def AttemptsForCancellation_def
      AttemptsForChild_def Let_def split: option.splits)

lemma AttemptsForActivity_no_counter:
  "mapEntry (ActivityAttempts a) (ai_ActivityId i) = None \<Longrightarrow>
   fst (AttemptsForActivity a (Some i)) = Inr 0"
  by (simp add: AttemptsForActivity_def Let_def bindR_def deref_def mapInt_def)

section \<open>EventCorrelator: an activity scheduled, then ended\<close>

lemma EventType_distinct [simp]:
  "EventTypeActivityTaskScheduled \<noteq> EventTypeActivityTaskCompleted"
  "EventTypeActivityTaskScheduled \<noteq> EventTypeActivityTaskFailed"
  "EventTypeActivityTaskScheduled \<noteq> EventTypeActivityTaskTimedOut"
  "EventTypeActivityTaskScheduled \<noteq> EventTypeActivityTaskCanceled"
  "EventTypeActivityTaskScheduled \<noteq> EventTypeExternalWorkflowExecutionSignaled"
  "EventTypeActivityTaskScheduled \<noteq> EventTypeSignalExternalWorkflowExecutionFailed"
  "EventTypeActivityTaskScheduled \<noteq> EventTypeTimerFired"
  "EventTypeActivityTaskScheduled \<noteq> EventTypeTimerCanceled"
  "EventTypeActivityTaskScheduled \<noteq> EventTypeRequestCancelExternalWorkflowExecutionFailed"
  "EventTypeActivityTaskScheduled \<noteq> EventTypeExternalWorkflowExecutionCancelRequested"
  "EventTypeActivityTaskScheduled \<noteq> EventTypeStartChildWorkflowExecutionFailed"
  "EventTypeActivityTaskScheduled \<noteq> EventTypeChildWorkflowExecutionStarted"
  "EventTypeActivityTaskScheduled \<noteq> EventTypeSignalExternalWorkflowExecutionInitiated"
  "EventTypeActivityTaskScheduled \<noteq> EventTypeRequestCancelExternalWorkflowExecutionInitiated"
  "EventTypeActivityTaskScheduled \<noteq> EventTypeTimerStarted"
  "EventTypeActivityTaskScheduled \<noteq> EventTypeStartChildWorkflowExecutionInitiated"
  "EventTypeActivityTaskCompleted \<noteq> EventTypeActivityTaskScheduled"
  "EventTypeActivityTaskCompleted \<noteq> EventTypeSignalExternalWorkflowExecutionInitiated"
  "EventTypeActivityTaskCompleted \<noteq> EventTypeRequestCancelExternalWorkflowExecutionInitiated"
  "EventTypeActivityTaskCompleted \<noteq> EventTypeTimerStarted"
  "EventTypeActivityTaskCompleted \<noteq> EventTypeStartChildWorkflowExecutionInitiated"
  "EventTypeActivityTaskFailed \<noteq> EventTypeActivityTaskCompleted"
  "EventTypeActivityTaskFailed \<noteq> EventTypeActivityTaskScheduled"
  "EventTypeActivityTaskFailed \<noteq> EventTypeSignalExternalWorkflowExecutionInitiated"
  "EventTypeActivityTaskFailed \<noteq> EventTypeRequestCancelExternalWorkflowExecutionInitiated"
  "EventTypeActivityTaskFailed \<noteq> EventTypeTimerStarted"
  "EventTypeActivityTaskFailed \<noteq> EventTypeStartChildWorkflowExecutionInitiated"
  by (simp_all add: EventType_defs)

lemma RemoveCorrelation_scheduled:
  "EventType (val h) = Some EventTypeActivityTaskScheduled \<Longrightarrow>
   RemoveCorrelation a h = (None, checkInit a)"
  by (simp add: RemoveCorrelation_def Let_def)

lemma Correlate_scheduled:
  assumes "EventType h = Some EventTypeActivityTaskScheduled" "EventId h = Some k"
    "ActivityTaskScheduledEventAttributes h = Some attrs" "sch_ActivityId attrs = Some activityId"
  shows "Correlate a h = (None, (checkInit a)\<lparr>Activities :=
     Some ((case Activities a of None \<Rightarrow> Map.empty | Some t \<Rightarrow> t)(FormatInt k \<mapsto>
        Some \<lparr>ai_ActivityId = activityId, ai_ActivityType = sch_ActivityType attrs\<rparr>))\<rparr>)"
  using assms
  by (simp add: Correlate_def correlateActivity_def correlateSignal_def correlateCancellation_def
      correlateTimer_def correlateChild_def nilSafeEq_def andThen_def attempt_def bindR_def
      key_def deref_def mapStore_mapInit)

lemma Track_scheduled:
  assumes "EventType (val h) = Some EventTypeActivityTaskScheduled" "EventId (val h) = Some k"
    "ActivityTaskScheduledEventAttributes (val h) = Some attrs"
    "sch_ActivityId attrs = Some activityId"
  shows "Track a h = (None, (checkInit a)\<lparr>Activities :=
     Some ((case Activities a of None \<Rightarrow> Map.empty | Some t \<Rightarrow> t)(FormatInt k \<mapsto>
        Some \<lparr>ai_ActivityId = activityId, ai_ActivityType = sch_ActivityType attrs\<rparr>))\<rparr>)"
  using assms by (simp add: Track_def RemoveCorrelation_scheduled andThen_def Correlate_scheduled)

lemma Correlate_completed:
  assumes "EventType h = Some EventTypeActivityTaskCompleted"
  shows "Correlate a h = (None, checkInit a)"
  using assms
  by (simp add: Correlate_def correlateActivity_def correlateSignal_def correlateCancellation_def
      correlateTimer_def correlateChild_def nilSafeEq_def andThen_def)

lemma Correlate_failed:
  assumes "EventType h = Some EventTypeActivityTaskFailed"
  shows "Correlate a h = (None, checkInit a)"
  using assms
  by (simp add: Correlate_def correlateActivity_def correlateSignal_def correlateCancellation_def
      correlateTimer_def correlateChild_def nilSafeEq_def andThen_def)

lemma RemoveCorrelation_completed:
  assumes "EventType (val h) = Some EventTypeActivityTaskCompleted"
    "ActivityTaskCompletedEventAttributes (val h) = Some \<lparr>ScheduledEventId = Some k\<rparr>"
    "mapPtr (Activities a) (FormatInt k) = Some info"
  shows "RemoveCorrelation a h = (None, (checkInit a)\<lparr>
      ActivityAttempts := mapDelete (mapInit (ActivityAttempts a)) (ai_ActivityId info),
      Activities := mapDelete (mapInit (Activities a)) (FormatInt k)\<rparr>)"
  using assms
  by (simp add: RemoveCorrelation_def Let_def andThen_def attempt_def safeActivityId_def
      getId_def bindR_def deref_def scheduledKey_def key_def deleteActivity_def scheduledRef_def
      checkInit_def mapPtr_def)

lemma RemoveCorrelation_failed:
  assumes "EventType (val h) = Some EventTypeActivityTaskFailed"
    "ActivityTaskFailedEventAttributes (val h) = Some \<lparr>ScheduledEventId = Some k\<rparr>"
    "mapPtr (Activities a) (FormatInt k) = Some info"
    "toForget a \<noteq> Some (addr h)"
  shows "RemoveCorrelation a h = (None, (checkInit a)\<lparr>
      ActivityAttempts := (if ai_ActivityId info = [] then mapInit (ActivityAttempts a)
          else Some ((case ActivityAttempts a of None \<Rightarrow> Map.empty | Some t \<Rightarrow> t)
                 (ai_ActivityId info \<mapsto> mapInt (ActivityAttempts a) (ai_ActivityId info) + 1))),
      Activities := mapDelete (mapInit (Activities a)) (FormatInt k)\<rparr>)"
  using assms
  by (simp add: RemoveCorrelation_def Let_def andThen_def attempt_def safeActivityId_def
      getId_def incrementActivityAttempts_def mapStore_mapInit mapInt_def bindR_def deref_def
      scheduledKey_def key_def deleteActivity_def scheduledRef_def checkInit_def mapPtr_def)

text \<open>
  Claim C6, as amended. Let \<open>s\<close> be an \<open>ActivityTaskScheduled\<close> event with id \<open>k\<close> and
  activity id \<open>activityId\<close>, \<open>tc\<close> an \<open>ActivityTaskCompleted\<close> and \<open>tf\<close> an
  \<open>ActivityTaskFailed\<close> event whose \<open>ScheduledEventId\<close> is \<open>k\<close>, and \<open>tf\<close> not the event
  the correlator was told to forget. From any correlator, \<open>Track s\<close> then \<open>Track tc\<close> leaves
  no \<open>Activities\<close> entry under \<open>k\<close> and no attempts for \<open>activityId\<close>; \<open>Track s\<close> then
  \<open>Track tf\<close> leaves no \<open>Activities\<close> entry under \<open>k\<close> and the attempts for
  \<open>activityId\<close> one more than they were (1 when there were none), unless \<open>activityId\<close> is
  the empty string, which is never counted.
\<close>

theorem Track_scheduled_then_terminal:
  assumes s: "EventType (val s) = Some EventTypeActivityTaskScheduled" "EventId (val s) = Some k"
      "ActivityTaskScheduledEventAttributes (val s) = Some attrs"
      "sch_ActivityId attrs = Some activityId"
    and c: "EventType (val tc) = Some EventTypeActivityTaskCompleted"
      "ActivityTaskCompletedEventAttributes (val tc) = Some \<lparr>ScheduledEventId = Some k\<rparr>"
    and f: "EventType (val tf) = Some EventTypeActivityTaskFailed"
      "ActivityTaskFailedEventAttributes (val tf) = Some \<lparr>ScheduledEventId = Some k\<rparr>"
    and forget: "toForget a \<noteq> Some (addr tf)"
  shows "\<exists>a1 a2 a3. Track a s = (None, a1) \<and> Track a1 tc = (None, a2) \<and> Track a1 tf = (None, a3)
      \<and> mapEntry (Activities a2) (FormatInt k) = None
      \<and> mapInt (ActivityAttempts a2) activityId = 0
      \<and> mapEntry (Activities a3) (FormatInt k) = None
      \<and> mapInt (ActivityAttempts a3) activityId =
          (if activityId = [] then mapInt (ActivityAttempts a) activityId
           else mapInt (ActivityAttempts a) activityId + 1)"
proof -
  define info where "info = \<lparr>ai_ActivityId = activityId, ai_ActivityType = sch_ActivityType attrs\<rparr>"
  define a1 where "a1 = (checkInit a)\<lparr>Activities :=
     Some ((case Activities a of None \<Rightarrow> Map.empty | Some t \<Rightarrow> t)(FormatInt k \<mapsto> Some info))\<rparr>"
  have t1: "Track a s = (None, a1)"
    unfolding a1_def info_def by (rule Track_scheduled [OF s])
  have look: "mapPtr (Activities a1) (FormatInt k) = Some info"
    by (simp add: a1_def mapPtr_def mapEntry_def)
  have fg: "toForget a1 \<noteq> Some (addr tf)"
    using forget by (simp add: a1_def)
  have att: "ActivityAttempts a1 = mapInit (ActivityAttempts a)"
    by (simp add: a1_def)
  define a2 where "a2 = checkInit ((checkInit a1)\<lparr>
      ActivityAttempts := mapDelete (mapInit (ActivityAttempts a1)) (ai_ActivityId info),
      Activities := mapDelete (mapInit (Activities a1)) (FormatInt k)\<rparr>)"
  have t2: "Track a1 tc = (None, a2)"
    by (simp add: Track_def RemoveCorrelation_completed [OF c look] andThen_def
        Correlate_completed [OF c(1)] a2_def)
  define a3 where "a3 = checkInit ((checkInit a1)\<lparr>
      ActivityAttempts := (if ai_ActivityId info = [] then mapInit (ActivityAttempts a1)
          else Some ((case ActivityAttempts a1 of None \<Rightarrow> Map.empty | Some t \<Rightarrow> t)
                 (ai_ActivityId info \<mapsto> mapInt (ActivityAttempts a1) (ai_ActivityId info) + 1))),
      Activities := mapDelete (mapInit (Activities a1)) (FormatInt k)\<rparr>)"
  have t3: "Track a1 tf = (None, a3)"
    by (simp add: Track_def RemoveCorrelation_failed [OF f look fg] andThen_def
        Correlate_failed [OF f(1)] a3_def)
  have p2: "mapEntry (Activities a2) (FormatInt k) = None"
    by (simp add: a2_def)
  have q2: "mapInt (ActivityAttempts a2) activityId = 0"
    by (simp add: a2_def info_def)
  have p3: "mapEntry (Activities a3) (FormatInt k) = None"
    by (simp add: a3_def)
  have q3: "mapInt (ActivityAttempts a3) activityId =
          (if activityId = [] then mapInt (ActivityAttempts a) activityId
           else mapInt (ActivityAttempts a) activityId + 1)"
    by (simp add: a3_def info_def att mapInt_def mapEntry_def mapInit_def split: option.splits)
  from t1 t2 t3 p2 q2 p3 q3 show ?thesis by blast
qed

theorem Track_scheduled_then_terminal_witness:
  "\<exists>a1 a2 a3. Track zeroCorrelator (1, exScheduled 5 ''A1'') = (None, a1)
      \<and> Track a1 (2, exCompleted 7 5) = (None, a2) \<and> Track a1 (3, exFailed 7 5) = (None, a3)
      \<and> mapEntry (Activities a2) (FormatInt 5) = None
      \<and> mapInt (ActivityAttempts a2) ''A1'' = 0
      \<and> mapEntry (Activities a3) (FormatInt 5) = None
      \<and> mapInt (ActivityAttempts a3) ''A1'' = 1"
proof -
  have s: "EventType (val (1, exScheduled 5 ''A1'')) = Some EventTypeActivityTaskScheduled"
      "EventId (val (1, exScheduled 5 ''A1'')) = Some 5"
      "ActivityTaskScheduledEventAttributes (val (1, exScheduled 5 ''A1''))
         = Some \<lparr>sch_ActivityId = Some ''A1'', sch_ActivityType = None\<rparr>"
      "sch_ActivityId \<lparr>sch_ActivityId = Some ''A1'', sch_ActivityType = None\<rparr> = Some ''A1''"
    by (simp_all add: val_def exScheduled_def zeroEvent_def)
  have c: "EventType (val (2, exCompleted 7 5)) = Some EventTypeActivityTaskCompleted"
      "ActivityTaskCompletedEventAttributes (val (2, exCompleted 7 5))
         = Some \<lparr>ScheduledEventId = Some 5\<rparr>"
    by (simp_all add: val_def exCompleted_def zeroEvent_def)
  have f: "EventType (val (3, exFailed 7 5)) = Some EventTypeActivityTaskFailed"
      "ActivityTaskFailedEventAttributes (val (3, exFailed 7 5))
         = Some \<lparr>ScheduledEventId = Some 5\<rparr>"
    by (simp_all add: val_def exFailed_def zeroEvent_def)
  have g: "toForget zeroCorrelator \<noteq> Some (addr (3, exFailed 7 5))"
    by (simp add: zeroCorrelator_def)
  have z: "mapInt (ActivityAttempts zeroCorrelator) ''A1'' = 0"
    by (simp add: zeroCorrelator_def mapInt_def mapEntry_def)
  from Track_scheduled_then_terminal [OF s c f g] z show ?thesis
    by simp
qed

text \<open>
  The claim as stated fails at two inputs. From the zero-value correlator, an activity
  scheduled with the empty activity id and then failed has 0 attempts, not 1. From a
  correlator that already counts one failed attempt of \<open>A1\<close>, scheduling \<open>A1\<close> again
  (event 9) and failing it (event 11) leaves 2 attempts, not 1.
\<close>

theorem Track_scheduled_then_failed_counterexample:
  "fst (Track zeroCorrelator (1, exScheduled 5 [])) = None
   \<and> fst (Track (snd (Track zeroCorrelator (1, exScheduled 5 []))) (2, exFailed 7 5)) = None
   \<and> mapInt (ActivityAttempts
        (snd (Track (snd (Track zeroCorrelator (1, exScheduled 5 []))) (2, exFailed 7 5)))) [] \<noteq> 1
   \<and> mapInt (ActivityAttempts exRetried) ''A1'' = 1
   \<and> fst (Track exRetried (3, exScheduled 9 ''A1'')) = None
   \<and> fst (Track (snd (Track exRetried (3, exScheduled 9 ''A1''))) (4, exFailed 11 9)) = None
   \<and> mapInt (ActivityAttempts
        (snd (Track (snd (Track exRetried (3, exScheduled 9 ''A1''))) (4, exFailed 11 9)))) ''A1'' = 2"
  by code_simp

section \<open>Activity worker: backoff\<close>

lemma sint_sub_one: "1 \<le> sint (a :: 64 word) \<Longrightarrow> sint (a - 1) = sint a - 1"
proof -
  assume h: "1 \<le> sint a"
  have u: "sint a < 2 ^ 63" using sint_lt [of a] by simp
  have "sint (a - 1) = signed_take_bit 63 (sint a - 1)"
    by (simp add: sint_word_ariths)
  also have "\<dots> = sint a - 1"
    using h u by (simp add: signed_take_bit_int_eq_self_iff)
  finally show ?thesis .
qed

lemma signed_take_bit_small:
  "0 \<le> k \<Longrightarrow> k \<le> 2 ^ 30 \<Longrightarrow> signed_take_bit 63 (k::int) = k"
  by (simp add: signed_take_bit_int_eq_self_iff)

lemma sint_two_power: "n \<le> 30 \<Longrightarrow> sint ((2 :: 64 word) ^ n) = 2 ^ n"
proof -
  assume h: "n \<le> 30"
  have p: "(2::int) ^ n \<le> 2 ^ 30" by (rule power_increasing [OF h]) simp
  have "(2 :: 64 word) ^ n = word_of_int (2 ^ n)" by simp
  then have "sint ((2 :: 64 word) ^ n) = signed_take_bit 63 ((2::int) ^ n)"
    by (simp only: sint_sbintrunc') simp
  also have "\<dots> = 2 ^ n"
    by (rule signed_take_bit_small [OF _ p]) simp
  finally show ?thesis .
qed

lemma backoff_seconds:
  assumes "1 \<le> sint attempts"
  shows "sint (backoff h attempts) =
     min (2 ^ min (nat (sint attempts - 1)) 30) (sint (MaxBackoffSeconds h))"
proof -
  have e: "sint (attempts - 1) = sint attempts - 1"
    by (rule sint_sub_one [OF assms])
  show ?thesis
  proof (cases "30 < sint attempts - 1")
    case True
    then have "min (nat (sint attempts - 1)) 30 = 30" by simp
    moreover have "sint (powTwo 30) = 2 ^ 30"
      using sint_two_power [of 30] by (simp add: powTwo_def)
    ultimately show ?thesis
      using True e by (simp add: backoff_def Let_def min_def)
  next
    case False
    then have m: "min (nat (sint attempts - 1)) 30 = nat (sint attempts - 1)"
      by simp
    have n: "nat (sint attempts - 1) \<le> 30" using False by simp
    have "sint (powTwo (attempts - 1)) = 2 ^ nat (sint attempts - 1)"
      using assms e sint_two_power [OF n] by (simp add: powTwo_def)
    then show ?thesis
      using False e m by (simp add: backoff_def Let_def min_def)
  qed
qed

text \<open>Events that are not correlator markers are passed over.\<close>

lemma backoffSleep_skip:
  "isCorrelatorMarker e = Inr False \<Longrightarrow> backoffSleep h task (e # es) = backoffSleep h task es"
  by (auto simp: isCorrelatorMarker_def isMarker_def bindR_def deref_def
      split: option.splits if_splits)

lemma backoffSleep_prefix:
  "\<forall>e\<in>set pre. isCorrelatorMarker e = Inr False \<Longrightarrow>
   backoffSleep h task (pre @ rest) = backoffSleep h task rest"
proof (induction pre)
  case Nil
  show ?case by simp
next
  case (Cons e pre)
  then show ?case by (simp add: backoffSleep_skip del: backoffSleep.simps)
qed

lemma backoffSleep_marker:
  assumes "isCorrelatorMarker m = Inr True"
    and "MarkerRecordedEventAttributes m = Some attrs" and "Details attrs = Some details"
    and "aw_Serializer h details zeroCorrelator = (correlator, None)"
    and "act_ActivityID task = Some activityID"
    and "logFields task = Inr logged"
  shows "backoffSleep h task (m # post) =
     Inr [Sleep (backoff h (mapInt (ActivityAttempts correlator) activityID) * Second)]"
  using assms
  by (auto simp: isCorrelatorMarker_def isMarker_def bindR_def deref_def Let_def
      split: option.splits if_splits)

text \<open>
  A task without its workflow execution or its activity type: \<open>fail\<close> panics at a log
  line, and \<open>RespondActivityTaskFailed\<close> is not called.
\<close>

lemma logFields_nil:
  "act_WorkflowExecution task = None \<or> act_ActivityType task = None \<Longrightarrow>
   logFields task = Inl NilPointerDereference"
  by (auto simp: logFields_def bindR_def deref_def split: option.splits)

lemma fail_nil_task_struct_panics:
  assumes "act_WorkflowExecution task = None \<or> act_ActivityType task = None"
  shows "fst (fail h task err hist) \<noteq> None"
  using logFields_nil [OF assms]
  by (auto simp: fail_def respondFailed_def split: sum.splits)

text \<open>
  Claim C8, as amended. With \<open>BackoffOnFailure\<close> on, the history fetched, its first (most
  recent) \<open>FSM.Correlator\<close> marker decoding without error to a correlator that records
  \<open>attempts \<ge> 1\<close> for the task's activity id, and a task that carries its workflow
  execution and its activity type: \<open>fail\<close> fetches the history, sleeps
  \<open>min(2^min(attempts-1, 30), MaxBackoffSeconds)\<close> seconds and then calls
  \<open>RespondActivityTaskFailed\<close>. The exponent stops at 30.
\<close>

theorem fail_backoff_sleep:
  assumes "BackoffOnFailure h"
    and "\<forall>e\<in>set pre. isCorrelatorMarker e = Inr False"
    and "isCorrelatorMarker m = Inr True"
    and "MarkerRecordedEventAttributes m = Some attrs" and "Details attrs = Some details"
    and "aw_Serializer h details zeroCorrelator = (correlator, None)"
    and "act_ActivityID task = Some activityID"
    and "mapEntry (ActivityAttempts correlator) activityID = Some attempts"
    and "1 \<le> sint attempts"
    and "act_WorkflowExecution task = Some workflowExecution"
    and "act_ActivityType task = Some activityType"
  shows "\<exists>seconds.
      fail h task err (Inr (pre @ m # post)) =
        (None, [GetWorkflowExecutionHistory, Sleep (seconds * Second),
                RespondActivityTaskFailed (act_TaskToken task) err err])
      \<and> sint seconds = min (2 ^ min (nat (sint attempts - 1)) 30) (sint (MaxBackoffSeconds h))"
proof -
  have a: "mapInt (ActivityAttempts correlator) activityID = attempts"
    using assms(8) by (simp add: mapInt_def)
  have l: "logFields task = Inr (WorkflowId workflowExecution, at_Name activityType)"
    using assms(10,11) by (simp add: logFields_def bindR_def deref_def)
  have "backoffSleep h task (pre @ m # post) = Inr [Sleep (backoff h attempts * Second)]"
    using backoffSleep_prefix [OF assms(2)] backoffSleep_marker [OF assms(3-7) l] a by simp
  then have "fail h task err (Inr (pre @ m # post)) =
        (None, [GetWorkflowExecutionHistory, Sleep (backoff h attempts * Second),
                RespondActivityTaskFailed (act_TaskToken task) err err])"
    using assms(1) l by (simp add: fail_def respondFailed_def)
  with backoff_seconds [OF assms(9)] show ?thesis by blast
qed

lemma isCorrelatorMarker_examples:
  "isCorrelatorMarker (exMarker k CorrelatorMarker d) = Inr True"
  "isCorrelatorMarker (exMarker k StateMarker d) = Inr False"
  "isCorrelatorMarker (exEvent k EventTypeDecisionTaskStarted) = Inr False"
  by (simp_all add: isCorrelatorMarker_def isMarker_def exMarker_def exEvent_def zeroEvent_def
      bindR_def deref_def EventType_defs StateMarker_def CorrelatorMarker_def)

theorem fail_backoff_sleep_witness:
  "\<exists>seconds.
      fail (exWorker 60 3) exActivityTask ''boom''
        (Inr ([exEvent 12 EventTypeDecisionTaskStarted, exMarker 11 StateMarker ''s'']
              @ exMarker 10 CorrelatorMarker ''c'' # [exEvent 9 EventTypeDecisionTaskStarted])) =
        (None, [GetWorkflowExecutionHistory, Sleep (seconds * Second),
                RespondActivityTaskFailed (Some ''token'') ''boom'' ''boom''])
      \<and> sint seconds = 4"
proof -
  have 1: "BackoffOnFailure (exWorker 60 3)" by (simp add: exWorker_def)
  have 2: "\<forall>e\<in>set [exEvent 12 EventTypeDecisionTaskStarted, exMarker 11 StateMarker ''s''].
      isCorrelatorMarker e = Inr False"
    by (simp add: isCorrelatorMarker_examples)
  have 3: "isCorrelatorMarker (exMarker 10 CorrelatorMarker ''c'') = Inr True"
    by (simp add: isCorrelatorMarker_examples)
  have 4: "MarkerRecordedEventAttributes (exMarker 10 CorrelatorMarker ''c'') =
      Some \<lparr>MarkerName = Some CorrelatorMarker, Details = Some ''c''\<rparr>"
    by (simp add: exMarker_def zeroEvent_def)
  have 5: "Details \<lparr>MarkerName = Some CorrelatorMarker, Details = Some ''c''\<rparr> = Some ''c''"
    by simp
  have 6: "aw_Serializer (exWorker 60 3) ''c'' zeroCorrelator =
      (zeroCorrelator\<lparr>ActivityAttempts := Some [''A1'' \<mapsto> 3]\<rparr>, None)"
    by (simp add: exWorker_def)
  have 7: "act_ActivityID exActivityTask = Some ''A1''" by (simp add: exActivityTask_def)
  have 8: "mapEntry (ActivityAttempts (zeroCorrelator\<lparr>ActivityAttempts := Some [''A1'' \<mapsto> 3]\<rparr>))
      ''A1'' = Some 3"
    by (simp add: mapEntry_def)
  have 9: "1 \<le> sint (3 :: goint)" by simp
  have 10: "act_WorkflowExecution exActivityTask = Some \<lparr>WorkflowId = Some ''id'', RunId = Some ''run''\<rparr>"
    by (simp add: exActivityTask_def)
  have 11: "act_ActivityType exActivityTask = Some \<lparr>at_Name = Some ''activity'', at_Version = Some ''1''\<rparr>"
    by (simp add: exActivityTask_def)
  have t: "act_TaskToken exActivityTask = Some ''token''" by (simp add: exActivityTask_def)
  have m: "MaxBackoffSeconds (exWorker 60 3) = 60" by (simp add: exWorker_def)
  from fail_backoff_sleep [OF 1 2 3 4 5 6 7 8 9 10 11, of "''boom''" "[exEvent 9 EventTypeDecisionTaskStarted]"]
  show ?thesis by (simp add: t m)
qed

text \<open>
  The claim as stated fails once \<open>attempts\<close> passes 31: with 40 attempts recorded and
  \<open>MaxBackoffSeconds = 2000000000\<close> the worker sleeps \<open>2^30 = 1073741824\<close> seconds, where
  \<open>min(2^39, 2000000000)\<close> is 2000000000.
\<close>

theorem fail_backoff_sleep_counterexample:
  "fail (exWorker 2000000000 40) exActivityTask ''boom'' (Inr [exMarker 10 CorrelatorMarker ''c'']) =
     (None, [GetWorkflowExecutionHistory, Sleep (1073741824 * Second),
             RespondActivityTaskFailed (Some ''token'') ''boom'' ''boom''])
   \<and> min ((2::int) ^ (40 - 1)) 2000000000 = 2000000000"
  by (simp add: fail_def respondFailed_def logFields_def Let_def exWorker_def exActivityTask_def
      exMarker_def zeroEvent_def bindR_def deref_def EventType_defs CorrelatorMarker_def
      mapInt_def mapEntry_def backoff_def powTwo_def)

section \<open>ShutdownManager: stopping the pollers\<close>

lemma exManager_pollers:
  "registeredPollers exManager =
     [(''p1'', \<lparr>name = ''p1'', stopChannel = 1, stopAckChannel = 2\<rparr>),
      (''p2'', \<lparr>name = ''p2'', stopChannel = 3, stopAckChannel = 4\<rparr>)]"
  by (simp add: exManager_def Register_def NewShutdownManager_def)

text \<open>
  Claim C9, as amended. A call of \<open>StopPollers\<close> that returns has first sent one stop
  message on every registered stop channel, then received one ack from every registered
  ack channel, each in some order of the registered pollers, and has left the registry
  empty. Neither order need be the order of registration.
\<close>

theorem StopPollers_sends_then_acks:
  assumes "StopPollers p ops p'"
  shows "\<exists>(sends :: registeredPoller list) (acks :: registeredPoller list).
      ops = map (\<lambda>r. Send (stopChannel r) True) sends @ map (\<lambda>r. Receive (stopAckChannel r)) acks
      \<and> mset (map stopChannel sends) = mset (map (stopChannel \<circ> snd) (registeredPollers p))
      \<and> mset (map stopAckChannel acks) = mset (map (stopAckChannel \<circ> snd) (registeredPollers p))
      \<and> length ops = 2 * length (registeredPollers p)
      \<and> registeredPollers p' = []"
  using assms
proof (cases rule: StopPollers.cases)
  case (1 sends acks)
  have s: "mset (map stopChannel sends) = mset (map (stopChannel \<circ> snd) (registeredPollers p))"
    using 1(3) by (metis mset_map map_map)
  have a: "mset (map stopAckChannel acks) = mset (map (stopAckChannel \<circ> snd) (registeredPollers p))"
    using 1(4) by (metis mset_map map_map)
  have l: "length sends = length (registeredPollers p)" "length acks = length (registeredPollers p)"
    using 1(3,4) by (metis length_map size_mset)+
  show ?thesis
    apply (rule exI [of _ sends])
    apply (rule exI [of _ acks])
    using 1(1,2) s a l by simp
qed

theorem StopPollers_sends_then_acks_witness:
  "\<exists>(sends :: registeredPoller list) (acks :: registeredPoller list).
      [Send 1 True, Send 3 True, Receive 2, Receive 4] =
        map (\<lambda>r. Send (stopChannel r) True) sends @ map (\<lambda>r. Receive (stopAckChannel r)) acks
      \<and> mset (map stopChannel sends) = mset (map (stopChannel \<circ> snd) (registeredPollers exManager))
      \<and> mset (map stopAckChannel acks) = mset (map (stopAckChannel \<circ> snd) (registeredPollers exManager))
      \<and> length [Send 1 True, Send 3 True, Receive 2, Receive 4] = 2 * length (registeredPollers exManager)
      \<and> registeredPollers (exManager\<lparr>registeredPollers := []\<rparr>) = []"
proof -
  have "StopPollers exManager
     (map (\<lambda>r. Send (stopChannel r) True) (map snd (registeredPollers exManager))
      @ map (\<lambda>r. Receive (stopAckChannel r)) (map snd (registeredPollers exManager)))
     (exManager\<lparr>registeredPollers := []\<rparr>)"
    by (rule StopPollers.intros) simp_all
  then have "StopPollers exManager [Send 1 True, Send 3 True, Receive 2, Receive 4]
     (exManager\<lparr>registeredPollers := []\<rparr>)"
    by (simp add: exManager_pollers)
  from StopPollers_sends_then_acks [OF this] show ?thesis .
qed

text \<open>
  The claim as stated fails for two pollers registered as \<open>p1\<close> then \<open>p2\<close>: the call may
  send to \<open>p2\<close> first and wait for the ack of \<open>p2\<close> first.
\<close>

theorem StopPollers_order_counterexample:
  "StopPollers exManager [Send 3 True, Send 1 True, Receive 4, Receive 2]
     (exManager\<lparr>registeredPollers := []\<rparr>)"
proof -
  define r1 where "r1 = \<lparr>name = ''p1'', stopChannel = 1, stopAckChannel = 2\<rparr>"
  define r2 where "r2 = \<lparr>name = ''p2'', stopChannel = 3, stopAckChannel = 4\<rparr>"
  have p: "map snd (registeredPollers exManager) = [r1, r2]"
    by (simp add: exManager_pollers r1_def r2_def)
  have "StopPollers exManager
     (map (\<lambda>r. Send (stopChannel r) True) [r2, r1] @ map (\<lambda>r. Receive (stopAckChannel r)) [r2, r1])
     (exManager\<lparr>registeredPollers := []\<rparr>)"
    by (rule StopPollers.intros) (simp_all add: p)
  then show ?thesis by (simp add: r1_def r2_def)
qed

section \<open>The decider runtime: what a tick returns\<close>


text \<open>
  A return of \<open>Tick\<close> without error whose decisions and state come from one call of
  \<open>recordStateMarkers\<close>, on a context with state version \<open>v\<close>: the shape of every such
  return.
\<close>

abbreviation recorded :: "'d FSM \<Rightarrow> uint64 \<Rightarrow> bool \<Rightarrow> 'd TickReturn \<Rightarrow> bool" where
  "recorded f v tracked ret \<equiv>
     (\<exists>ctx outcome es st final. stateVersion ctx = v \<and> (tracked \<longrightarrow> es \<noteq> None)
        \<and> recordStateMarkers f ctx outcome (eventCorrelator ctx) es = Inr (final, st, None)
        \<and> ret = \<lparr>ret_context = Some ctx, ret_decisions = final, ret_state = Some st, ret_err = None\<rparr>)"

lemma giveUp_Inr: "giveUp f er = Inr ret \<Longrightarrow> ret = abandon er"
  by (simp add: giveUp_def split: if_splits)

lemma abandon_fields [simp]:
  "ret_err (abandon e) = Some e" "ret_state (abandon e) = None"
  "ret_decisions (abandon e) = []" "ret_context (abandon e) = None"
  by (simp_all add: abandon_def)

lemma panicSafeDecide_version:
  "panicSafeDecide f fsmState ctx e d = Inr (Decided o' ctx') \<Longrightarrow> stateVersion ctx' = stateVersion ctx"
  "panicSafeDecide f fsmState ctx e d = Inr (Recovered err ctx' d') \<Longrightarrow> stateVersion ctx' = stateVersion ctx"
  by (auto simp: panicSafeDecide_def split: prod.splits decided.splits option.splits if_splits)

lemma decideEvent_Continue:
  assumes "decideEvent f task ctx outcome e = Inr (Continue (ctx', outcome'))"
  shows "stateVersion ctx' = stateVersion ctx"
  using assms
  apply (simp add: decideEvent_def bindR_def deref_def Let_def
      split: option.splits sum.splits safe_decide.splits prod.splits)
  apply (auto dest!: panicSafeDecide_version giveUp_Inr)
  done

lemma decideEvent_Return:
  assumes "decideEvent f task ctx outcome e = Inr (Return ret)"
  shows "(\<exists>er. ret = abandon er) \<or> recorded f (stateVersion ctx) True ret"
  using assms
  apply (simp add: decideEvent_def bindR_def deref_def Let_def
      split: option.splits sum.splits safe_decide.splits prod.splits)
   apply (safe dest!: panicSafeDecide_version(2) giveUp_Inr)
  apply (simp_all)
  apply blast+
  done

lemma foldEvents_Continue:
  "foldEvents f task ctx outcome es = Inr (Continue (ctx', outcome')) \<Longrightarrow>
   stateVersion ctx' = stateVersion ctx"
proof (induction es arbitrary: ctx outcome)
  case Nil
  then show ?case by simp
next
  case (Cons e es)
  then show ?case
    by (auto simp: bindR_def split: sum.splits flow.splits dest: decideEvent_Continue)
qed

lemma foldEvents_Return:
  "foldEvents f task ctx outcome es = Inr (Return ret) \<Longrightarrow>
   (\<exists>er. ret = abandon er) \<or> recorded f (stateVersion ctx) True ret"
proof (induction es arbitrary: ctx outcome)
  case Nil
  then show ?case by simp
next
  case (Cons e es)
  from Cons.prems show ?case
  proof (cases "decideEvent f task ctx outcome e")
    case (Inl p)
    with Cons.prems show ?thesis by (simp add: bindR_def)
  next
    case (Inr r)
    show ?thesis
    proof (cases r)
      case (Return ret')
      with Inr Cons.prems have "ret' = ret" by (simp add: bindR_def)
      with Inr Return show ?thesis using decideEvent_Return by blast
    next
      case (Continue c)
      obtain ctx1 o1 where c: "c = (ctx1, o1)" by (cases c)
      with Inr Continue Cons.prems have "foldEvents f task ctx1 o1 es = Inr (Return ret)"
        by (simp add: bindR_def)
      from Cons.IH [OF this] decideEvent_Continue [of f task ctx outcome e ctx1 o1] Inr Continue c
      show ?thesis by simp
    qed
  qed
qed

lemma tickFinish_Inr:
  assumes "tickFinish f task ctx outcome = Inr ret"
  shows "(\<exists>er. ret = abandon er) \<or> recorded f (stateVersion ctx) False ret"
  using assms
  apply (simp add: tickFinish_def bindR_def Let_def
      split: option.splits sum.splits prod.splits if_splits)
   apply (safe dest!: giveUp_Inr)
  apply (simp_all)
  apply (blast | force)+
  done

lemma tickEvents_Inr:
  assumes "tickEvents f task ctx outcome ls = Inr ret"
  shows "(\<exists>er. ret = abandon er) \<or> recorded f (stateVersion ctx) False ret"
proof (cases "foldEvents f task ctx outcome (rev ls)")
  case (Inl p)
  with assms show ?thesis by (simp add: tickEvents_def bindR_def)
next
  case (Inr r)
  show ?thesis
  proof (cases r)
    case (Return ret')
    with Inr assms have "ret' = ret" by (simp add: tickEvents_def bindR_def)
    with Inr Return foldEvents_Return [of f task ctx outcome "rev ls" ret] show ?thesis
      by blast
  next
    case (Continue c)
    obtain ctx1 o1 where c: "c = (ctx1, o1)" by (cases c)
    with Inr Continue assms have t: "tickFinish f task ctx1 o1 = Inr ret"
      by (simp add: tickEvents_def bindR_def)
    from Inr Continue c have "stateVersion ctx1 = stateVersion ctx"
      by (simp add: foldEvents_Continue)
    with tickFinish_Inr [OF t] show ?thesis by simp
  qed
qed

lemma tickSetup_Return:
  assumes "tickSetup f task = Inr (Return ret)"
  shows "\<exists>er. ret = abandon er"
  using assms
  apply (simp add: tickSetup_def bindR_def deref_def Let_def
      split: option.splits sum.splits prod.splits)
  apply (auto dest!: giveUp_Inr)
  done

lemma tickSetup_Continue:
  assumes "tickSetup f task = Inr (Continue (ctx, outcome, ls))"
  shows "\<exists>st0 prev. findSerializedState f (Events task) = Inr (Some st0, None)
     \<and> stateVersion ctx = StateVersion st0
     \<and> PreviousStartedEventId task = Some prev
     \<and> findLastEvents prev (Events task) = Inr ls"
  using assms
  apply (simp add: tickSetup_def bindR_def deref_def Let_def
      split: option.splits sum.splits prod.splits)
  apply (auto dest!: giveUp_Inr)
  done

lemma Tick_without_error_marker:
  assumes "findSerializedErrorState f (Events task) = Inr (None, x)"
    and "Tick f task = Inr ret"
  shows "(\<exists>er. ret = abandon er)
    \<or> (\<exists>st0. findSerializedState f (Events task) = Inr (Some st0, None)
           \<and> recorded f (StateVersion st0) False ret)"
proof (cases "tickSetup f task")
  case (Inl p)
  with assms(2) show ?thesis by (simp add: Tick.simps)
next
  case (Inr s)
  show ?thesis
  proof (cases s)
    case (Return ret')
    with Inr assms(2) have "ret' = ret" by (simp add: Tick.simps)
    with Inr Return tickSetup_Return show ?thesis by blast
  next
    case (Continue c)
    obtain ctx outcome ls where c: "c = (ctx, outcome, ls)" by (cases c)
    with Inr Continue assms have t: "tickEvents f task ctx outcome ls = Inr ret"
      by (simp add: Tick.simps)
    from tickSetup_Continue Inr Continue c obtain st0 where
      s: "findSerializedState f (Events task) = Inr (Some st0, None)"
         "stateVersion ctx = StateVersion st0" by blast
    from tickEvents_Inr [OF t] s show ?thesis by simp
  qed
qed

lemma withoutErrorMarkers_find:
  "withoutErrorMarkers hs = Inr filtered \<Longrightarrow> findSerializedErrorState f filtered = Inr (None, None)"
proof (induction hs arbitrary: filtered)
  case Nil
  then show ?case by simp
next
  case (Cons e hs)
  then show ?case
    by (cases "isErrorMarker (val e)"; cases "withoutErrorMarkers hs")
       (auto simp: bindR_def split: if_splits)
qed

lemma ErrorStateTick_never_recovers:
  assumes "ErrorStateTick f task es ctx data = Inr (recovery, err)"
  shows "recovery = None"
proof (rule ccontr)
  assume "recovery \<noteq> None"
  then obtain r where r: "recovery = Some r" by blast
  from assms [unfolded ErrorStateTick.simps Let_def] r
  obtain clone filtered ret e st where
    w: "withoutErrorMarkers (Events task) = Inr filtered"
    and t: "Tick f (clone\<lparr>Events := filtered,
              task_StartedEventId := Some (LatestUnprocessedEventId es),
              PreviousStartedEventId := Some (EarliestUnprocessedEventId es)\<rparr>) = Inr ret"
    and e: "ret_err ret = Some e" and st: "ret_state ret = Some st"
    by (auto simp: bindR_def deref_def split: prod.splits option.splits sum.splits)
  have "findSerializedErrorState f (Events (clone\<lparr>Events := filtered,
              task_StartedEventId := Some (LatestUnprocessedEventId es),
              PreviousStartedEventId := Some (EarliestUnprocessedEventId es)\<rparr>)) = Inr (None, None)"
    using withoutErrorMarkers_find [OF w] by simp
  from Tick_without_error_marker [OF this t] e st show False
    by auto
qed


lemma recordStateMarkers_ok:
  assumes "recordStateMarkers f ctx outcome correlator errorState = Inr (final, st, None)"
  shows "final = recordStringMarker StateMarker (fst (SerializeState (SystemSerializer f) st))
           # recordStringMarker CorrelatorMarker (fst (SerializeCorrelator (SystemSerializer f) correlator))
           # (case errorState of None \<Rightarrow> []
              | Some es \<Rightarrow> [recordStringMarker ErrorMarker (fst (SerializeErrorState (SystemSerializer f) es))])
           @ Decisions outcome
         \<and> StateVersion st = stateVersion ctx + 1 \<and> StateName st = State outcome"
  using assms
  by (auto simp: recordStateMarkers_def Let_def bindR_def deref_def
      split: option.splits prod.splits sum.splits)


lemma recordStateMarkers_decisions:
  assumes "recordStateMarkers f ctx outcome correlator errorState = Inr (final, st, None)"
  shows "final =
      \<lparr>DecisionType = Some ''RecordMarker'',
        RecordMarkerDecisionAttributes =
          Some \<lparr>rm_MarkerName = Some ''FSM.State'',
                rm_Details = Some (fst (SerializeState (SystemSerializer f) st))\<rparr>,
        ContinueAsNewWorkflowExecutionDecisionAttributes = None\<rparr>
      # \<lparr>DecisionType = Some ''RecordMarker'',
          RecordMarkerDecisionAttributes =
            Some \<lparr>rm_MarkerName = Some ''FSM.Correlator'',
                  rm_Details = Some (fst (SerializeCorrelator (SystemSerializer f) correlator))\<rparr>,
          ContinueAsNewWorkflowExecutionDecisionAttributes = None\<rparr>
      # (case errorState of
           None \<Rightarrow> []
         | Some es \<Rightarrow>
             [\<lparr>DecisionType = Some ''RecordMarker'',
               RecordMarkerDecisionAttributes =
                 Some \<lparr>rm_MarkerName = Some ''FSM.Error'',
                       rm_Details = Some (fst (SerializeErrorState (SystemSerializer f) es))\<rparr>,
               ContinueAsNewWorkflowExecutionDecisionAttributes = None\<rparr>])
      @ Decisions outcome"
  using recordStateMarkers_ok [OF assms]
  by (simp add: recordStringMarker_def DecisionTypeRecordMarker_def StateMarker_def
      CorrelatorMarker_def ErrorMarker_def split: option.splits)




section \<open>The decider runtime: the state version\<close>







section \<open>The decider runtime: recovery from an error marker\<close>

text \<open>
  Claim C5, where the code departs from it. \<open>ErrorStateTick\<close> returns the outcome of the
  shadow tick only under \<open>if err != nil\<close>, where \<open>Tick\<close> has returned a nil state and the
  dereference panics; when the shadow tick succeeds it returns \<open>nil, nil\<close>. So it never
  returns an outcome, and \<open>Tick\<close> treats every recovery as failed.
\<close>

theorem ErrorStateTick_returns_no_outcome:
  assumes "ErrorStateTick f task es ctx data = Inr (recovery, err)"
  shows "recovery = None"
  using assms by (rule ErrorStateTick_never_recovers)

theorem ErrorStateTick_returns_no_outcome_witness:
  "ErrorStateTick (exFSM exRescuingHandler) exErrorTask exErrorState exContext ''data''
     = Inr (None, None)"
proof -
  have "case ErrorStateTick (exFSM exRescuingHandler) exErrorTask exErrorState exContext ''data'' of
          Inl p \<Rightarrow> False | Inr r \<Rightarrow> snd r = None"
    by code_simp
  then obtain recovery where
    r: "ErrorStateTick (exFSM exRescuingHandler) exErrorTask exErrorState exContext ''data''
          = Inr (recovery, None)"
    by (cases "ErrorStateTick (exFSM exRescuingHandler) exErrorTask exErrorState exContext ''data''")
       auto
  from ErrorStateTick_returns_no_outcome [OF r] r show ?thesis by simp
qed

text \<open>
  With a handler that rescues, the shadow tick over the events 2 to 5 of \<open>exErrorTask\<close>
  succeeds (it reaches state \<open>working\<close> and schedules an activity), and yet the tick
  re-records the error marker with the range 2 to 9 and returns the three markers and the
  state \<open>start\<close>.
\<close>

lemma Tick_discards_recovery_example:
  "map_sum (\<lambda>p. p) (\<lambda>ret. (ret_err ret, map_option StateName (ret_state ret)))
       (Tick (exFSM exRescuingHandler) exShadowTask)
     = Inr (None, Some ''working'')
   \<and> map_sum (\<lambda>p. p) (\<lambda>ret. (ret_err ret, ret_decisions ret, map_option StateName (ret_state ret)))
       (Tick (exFSM exRescuingHandler) exErrorTask)
     = Inr (None, [recordStringMarker StateMarker ''state 24 start'',
                   recordStringMarker CorrelatorMarker ''correlator'',
                   recordStringMarker ErrorMarker ''error 2 9''], Some ''start'')"
  by code_simp

section \<open>The decider runtime: the events a tick decides\<close>










text \<open>
  \<open>findLastEvents\<close> tests a marker for the names \<open>FSM.State\<close> and \<open>FSM.Correlator\<close> only: an
  \<open>FSM.Error\<close> marker newer than \<open>previousStartedEventId\<close> is among the events it returns.
\<close>

lemma findLastEvents_keeps_error_marker_example:
  "map_sum (\<lambda>p. p) (map eventIdOf) (findLastEvents 1 (Events exErrorTask)) = Inr [8]
   \<and> map eventIdOf (specUnprocessed 1 (Events exErrorTask)) = []"
  by code_simp

section \<open>The decider runtime: a decider panic that is not rescued\<close>

text \<open>
  Every event \<open>findLastEvents\<close> collects has passed the dereferences of its id and type; and
  the loop over a history splits at any event.
\<close>

lemma findLastEventsLoop_derefs:
  "findLastEventsLoop prev acc events = Inr ls \<Longrightarrow> e \<in> set ls \<Longrightarrow>
   e \<in> set acc \<or> (EventId (val e) \<noteq> None \<and> EventType (val e) \<noteq> None)"
proof (induction events arbitrary: acc)
  case Nil
  then show ?case by simp
next
  case (Cons a es)
  from Cons.prems show ?case
    by (auto simp: bindR_def deref_def split: option.splits if_splits sum.splits
        dest!: Cons.IH)
qed

lemma foldEvents_append:
  "foldEvents f task ctx outcome (xs @ ys) =
     bindR (foldEvents f task ctx outcome xs) (\<lambda>r.
       case r of
         Return ret \<Rightarrow> Inr (Return ret)
       | Continue (ctx', outcome') \<Rightarrow> foldEvents f task ctx' outcome' ys)"
proof (induction xs arbitrary: ctx outcome)
  case Nil
  then show ?case by (simp add: bindR_def)
next
  case (Cons x xs)
  then show ?case
    by (cases "decideEvent f task ctx outcome x")
       (auto simp: bindR_def split: flow.splits)
qed

text \<open>
  Claim C4, as amended. \<open>Tick\<close> reaches its loop, decides the events \<open>before\<close> and comes to
  the event \<open>e\<close> with the context \<open>ctx1\<close> and the outcome \<open>outcome1\<close>; the decider of the current
  state panics on \<open>e\<close>, \<open>AllowPanics\<close> is off, the handler of that state (the default handler
  if it has none) returns a nil outcome, and the markers serialize. Then \<open>Tick\<close> returns
  without error the \<open>RecordMarker\<close> decisions named \<open>FSM.State\<close> and \<open>FSM.Correlator\<close>, then
  the \<open>RecordMarker\<close> decision named \<open>FSM.Error\<close> whose details are the serialized error state
  \<open>{previousStartedEventId + 1, startedEventId, e}\<close> with the text of the error the handler
  returned, and after them the decisions of the events decided before \<open>e\<close>.
\<close>

theorem Tick_unrescued_panic_records_error_marker:
  fixes f :: "'d FSM"
  assumes reached: "tickSetup f task = Inr (Continue (ctx, outcome, lastEvents))"
    and noerr: "findSerializedErrorState f (Events task) = Inr (None, x)"
    and events: "rev lastEvents = before @ e # after"
    and before: "foldEvents f task ctx outcome before = Inr (Continue (ctx1, outcome1))"
    and state: "states f (State outcome1) = Some fsmState"
    and decided: "context = ctx1\<lparr>ctx_State := State outcome1, stateData := Some (Data outcome1)\<rparr>"
    and recover: "\<not> AllowPanics f"
    and panic: "Decider fsmState context e (Data outcome1) = (data', Panicked p)"
    and handler: "(case errorHandlers f (fs_Name fsmState) of
                     None \<Rightarrow> DecisionErrorHandler f | Some h \<Rightarrow> h)
                    context (Some e)
                    (Unstash (stasher f) (Stash (stasher f) (Data outcome1)) (zeroStateData f))
                    data' (Some (recoveredError p)) = (None, notRescued)"
    and prev: "PreviousStartedEventId task = Some prevStarted"
    and started: "task_StartedEventId task = Some started"
    and errorState: "errorState = \<lparr>es_Details = (case notRescued of None \<Rightarrow> [] | Some ne \<Rightarrow> errorString ne),
         ErrorEvent = Some e, EarliestUnprocessedEventId = prevStarted + 1,
         LatestUnprocessedEventId = started\<rparr>"
    and markers: "recordStateMarkers f context (outcome1\<lparr>Data := data'\<rparr>) (eventCorrelator context)
                    (Some errorState) = Inr (final, serializedState, None)"
  shows "Tick f task = Inr \<lparr>ret_context = Some context,
           ret_decisions =
             \<lparr>DecisionType = Some ''RecordMarker'',
               RecordMarkerDecisionAttributes =
                 Some \<lparr>rm_MarkerName = Some ''FSM.State'',
                       rm_Details = Some (fst (SerializeState (SystemSerializer f) serializedState))\<rparr>,
               ContinueAsNewWorkflowExecutionDecisionAttributes = None\<rparr>
             # \<lparr>DecisionType = Some ''RecordMarker'',
                 RecordMarkerDecisionAttributes =
                   Some \<lparr>rm_MarkerName = Some ''FSM.Correlator'',
                         rm_Details = Some (fst (SerializeCorrelator (SystemSerializer f)
                                             (eventCorrelator context)))\<rparr>,
                 ContinueAsNewWorkflowExecutionDecisionAttributes = None\<rparr>
             # \<lparr>DecisionType = Some ''RecordMarker'',
                 RecordMarkerDecisionAttributes =
                   Some \<lparr>rm_MarkerName = Some ''FSM.Error'',
                         rm_Details = Some (fst (SerializeErrorState (SystemSerializer f) errorState))\<rparr>,
                 ContinueAsNewWorkflowExecutionDecisionAttributes = None\<rparr>
             # Decisions outcome1,
           ret_state = Some serializedState, ret_err = None\<rparr>"
proof -
  from tickSetup_Continue [OF reached] obtain prev' where
    "findLastEvents prev' (Events task) = Inr lastEvents" by blast
  moreover from events have "e \<in> set lastEvents"
    by (metis in_set_conv_decomp set_rev)
  ultimately have ids: "EventId (val e) \<noteq> None \<and> EventType (val e) \<noteq> None"
    using findLastEventsLoop_derefs [of prev' "[]" "Events task" lastEvents e]
    by (simp add: findLastEvents_def)
  from recordStateMarkers_decisions [OF markers]
  have final: "final =
      \<lparr>DecisionType = Some ''RecordMarker'',
        RecordMarkerDecisionAttributes =
          Some \<lparr>rm_MarkerName = Some ''FSM.State'',
                rm_Details = Some (fst (SerializeState (SystemSerializer f) serializedState))\<rparr>,
        ContinueAsNewWorkflowExecutionDecisionAttributes = None\<rparr>
      # \<lparr>DecisionType = Some ''RecordMarker'',
          RecordMarkerDecisionAttributes =
            Some \<lparr>rm_MarkerName = Some ''FSM.Correlator'',
                  rm_Details = Some (fst (SerializeCorrelator (SystemSerializer f)
                                      (eventCorrelator context)))\<rparr>,
          ContinueAsNewWorkflowExecutionDecisionAttributes = None\<rparr>
      # \<lparr>DecisionType = Some ''RecordMarker'',
          RecordMarkerDecisionAttributes =
            Some \<lparr>rm_MarkerName = Some ''FSM.Error'',
                  rm_Details = Some (fst (SerializeErrorState (SystemSerializer f) errorState))\<rparr>,
          ContinueAsNewWorkflowExecutionDecisionAttributes = None\<rparr>
      # Decisions outcome1"
    by simp
  from panic recover have "panicSafeDecide f fsmState context e (Data outcome1) =
      Inr (Recovered (recoveredError p) context data')"
    by (simp add: panicSafeDecide_def)
  with ids state decided handler prev started errorState markers
  have "decideEvent f task ctx1 outcome1 e =
      Inr (Return \<lparr>ret_context = Some context, ret_decisions = final,
             ret_state = Some serializedState, ret_err = None\<rparr>)"
    by (auto simp: decideEvent_def bindR_def deref_def Let_def)
  with before events have "tickEvents f task ctx outcome lastEvents =
      Inr \<lparr>ret_context = Some context, ret_decisions = final,
           ret_state = Some serializedState, ret_err = None\<rparr>"
    by (simp add: tickEvents_def foldEvents_append bindR_def)
  with reached noerr final show ?thesis by (simp add: Tick.simps)
qed


theorem Tick_unrescued_panic_records_error_marker_witness:
  "map_sum (\<lambda>p. p) (\<lambda>ret. (ret_decisions ret, map_option StateName (ret_state ret), ret_err ret))
       (Tick (exFSM exDefaultHandler) exPanicTask)
     = Inr ([\<lparr>DecisionType = Some ''RecordMarker'',
               RecordMarkerDecisionAttributes =
                 Some \<lparr>rm_MarkerName = Some ''FSM.State'',
                       rm_Details = Some ''state 24 working''\<rparr>,
               ContinueAsNewWorkflowExecutionDecisionAttributes = None\<rparr>,
             \<lparr>DecisionType = Some ''RecordMarker'',
               RecordMarkerDecisionAttributes =
                 Some \<lparr>rm_MarkerName = Some ''FSM.Correlator'',
                       rm_Details = Some ''correlator''\<rparr>,
               ContinueAsNewWorkflowExecutionDecisionAttributes = None\<rparr>,
             \<lparr>DecisionType = Some ''RecordMarker'',
               RecordMarkerDecisionAttributes =
                 Some \<lparr>rm_MarkerName = Some ''FSM.Error'',
                       rm_Details = Some ''error 4 6''\<rparr>,
               ContinueAsNewWorkflowExecutionDecisionAttributes = None\<rparr>,
             exDecision ''ScheduleActivityTask''], Some ''working'', None)"
proof -
  let ?F = "exFSM exDefaultHandler"
  let ?T = "exPanicTask"
  let ?e4 = "(4 :: nat, exEvent 4 EventTypeWorkflowExecutionSignaled)"
  let ?e5 = "(5 :: nat, exEvent 5 EventTypeWorkflowExecutionSignaled)"
  let ?s = "case tickSetup ?F ?T of Inr (Continue s) \<Rightarrow> s"
  let ?ctx = "fst ?s"
  let ?out = "fst (snd ?s)"
  let ?ls = "snd (snd ?s)"
  let ?b = "case foldEvents ?F ?T ?ctx ?out [?e4] of Inr (Continue b) \<Rightarrow> b"
  let ?ctx1 = "fst ?b"
  let ?out1 = "snd ?b"
  let ?ctxE = "?ctx1\<lparr>ctx_State := State ?out1, stateData := Some (Data ?out1)\<rparr>"
  let ?notRescued = "Some (recoveredError (DeciderPanic exBoom))"
  let ?es = "\<lparr>es_Details = (case ?notRescued of None \<Rightarrow> [] | Some ne \<Rightarrow> errorString ne),
      ErrorEvent = Some ?e5, EarliestUnprocessedEventId = 3 + 1,
      LatestUnprocessedEventId = 6\<rparr>"
  let ?m = "case recordStateMarkers ?F ?ctxE (?out1\<lparr>Data := ''data+!''\<rparr>)
                  (eventCorrelator ?ctxE) (Some ?es) of Inr m \<Rightarrow> m"
  let ?final = "fst ?m"
  let ?st = "fst (snd ?m)"
  have "case tickSetup ?F ?T of Inr (Continue s) \<Rightarrow> True | _ \<Rightarrow> False"
    by code_simp
  then have reached: "tickSetup ?F ?T = Inr (Continue (?ctx, ?out, ?ls))"
    by (auto split: sum.splits flow.splits)
  have noerr: "findSerializedErrorState ?F (Events ?T) = Inr (None, None)"
    by code_simp
  have events: "rev ?ls = [?e4] @ ?e5 # []"
    by code_simp
  have "case foldEvents ?F ?T ?ctx ?out [?e4] of Inr (Continue b) \<Rightarrow> True | _ \<Rightarrow> False"
    by code_simp
  then have before: "foldEvents ?F ?T ?ctx ?out [?e4] = Inr (Continue (?ctx1, ?out1))"
    by (auto split: sum.splits flow.splits)
  have "State ?out1 = ''working''"
    by code_simp
  then have state: "states ?F (State ?out1) = Some exWorking"
    by (simp add: exFSM_def)
  have recover: "\<not> AllowPanics ?F"
    by (simp add: exFSM_def)
  have "Data ?out1 = ''data+''"
    by code_simp
  then have panic: "Decider exWorking ?ctxE ?e5 (Data ?out1) = (''data+!'', Panicked (DeciderPanic exBoom))"
    by (simp add: exWorking_def)
  have handler: "(case errorHandlers ?F (fs_Name exWorking) of
                     None \<Rightarrow> DecisionErrorHandler ?F | Some h \<Rightarrow> h)
                   ?ctxE (Some ?e5)
                   (Unstash (stasher ?F) (Stash (stasher ?F) (Data ?out1)) (zeroStateData ?F))
                   ''data+!'' (Some (recoveredError (DeciderPanic exBoom))) = (None, ?notRescued)"
    by (simp add: exFSM_def exDefaultHandler_def)
  have prev: "PreviousStartedEventId ?T = Some 3" and started: "task_StartedEventId ?T = Some 6"
    by (simp_all add: exPanicTask_def exTask_def)
  have "case recordStateMarkers ?F ?ctxE (?out1\<lparr>Data := ''data+!''\<rparr>)
               (eventCorrelator ?ctxE) (Some ?es) of
          Inr (final, st, None) \<Rightarrow> True | _ \<Rightarrow> False"
    by code_simp
  then have markers: "recordStateMarkers ?F ?ctxE (?out1\<lparr>Data := ''data+!''\<rparr>)
      (eventCorrelator ?ctxE) (Some ?es) = Inr (?final, ?st, None)"
    by (auto split: sum.splits option.splits prod.splits)
  have rendered: "fst (SerializeState (SystemSerializer ?F) ?st) = ''state 24 working''"
    "fst (SerializeCorrelator (SystemSerializer ?F) (eventCorrelator ?ctxE)) = ''correlator''"
    "fst (SerializeErrorState (SystemSerializer ?F) ?es) = ''error 4 6''"
    "Decisions ?out1 = [exDecision ''ScheduleActivityTask'']"
    "StateName ?st = ''working''"
    by code_simp+
  from Tick_unrescued_panic_records_error_marker
    [OF reached noerr events before state refl recover panic handler prev started refl markers]
  have "Tick ?F ?T = Inr \<lparr>ret_context = Some ?ctxE,
      ret_decisions =
        \<lparr>DecisionType = Some ''RecordMarker'',
          RecordMarkerDecisionAttributes =
            Some \<lparr>rm_MarkerName = Some ''FSM.State'',
                  rm_Details = Some (fst (SerializeState (SystemSerializer ?F) ?st))\<rparr>,
          ContinueAsNewWorkflowExecutionDecisionAttributes = None\<rparr>
        # \<lparr>DecisionType = Some ''RecordMarker'',
            RecordMarkerDecisionAttributes =
              Some \<lparr>rm_MarkerName = Some ''FSM.Correlator'',
                    rm_Details = Some (fst (SerializeCorrelator (SystemSerializer ?F)
                                        (eventCorrelator ?ctxE)))\<rparr>,
            ContinueAsNewWorkflowExecutionDecisionAttributes = None\<rparr>
        # \<lparr>DecisionType = Some ''RecordMarker'',
            RecordMarkerDecisionAttributes =
              Some \<lparr>rm_MarkerName = Some ''FSM.Error'',
                    rm_Details = Some (fst (SerializeErrorState (SystemSerializer ?F) ?es))\<rparr>,
            ContinueAsNewWorkflowExecutionDecisionAttributes = None\<rparr>
        # Decisions ?out1,
      ret_state = Some ?st, ret_err = None\<rparr>" .
  then show ?thesis
    by (simp only: rendered map_sum.simps TickReturn.select_convs option.map)
qed

text \<open>
  The claim as stated fails where an event decided before the panic has made a decision: the
  \<open>FSM.Error\<close> marker is the third decision and that decision follows it.
\<close>

theorem Tick_unrescued_panic_counterexample:
  "map_sum (\<lambda>p. p) (\<lambda>ret. (drop 2 (ret_decisions ret), ret_err ret))
       (Tick (exFSM exDefaultHandler) exPanicTask)
     = Inr ([\<lparr>DecisionType = Some ''RecordMarker'',
               RecordMarkerDecisionAttributes =
                 Some \<lparr>rm_MarkerName = Some ''FSM.Error'',
                       rm_Details = Some ''error 4 6''\<rparr>,
               ContinueAsNewWorkflowExecutionDecisionAttributes = None\<rparr>,
             exDecision ''ScheduleActivityTask''], None)"
  by code_simp

end
